theory Spec2Isabelle
  imports Complex_Main "HOL-Library.Word"
begin

section \<open>Images\<close>

text \<open>
  The program (\<^verbatim>\<open>removal.py\<close>) handles images as numpy arrays of shape
  \<open>(height, width, channels)\<close> with 8-bit entries. An image is modelled by its
  third dimension \<^verbatim>\<open>image.shape[2]\<close> and its rows of pixels, a pixel being the list
  of its channel values (in a numpy array every pixel has \<^verbatim>\<open>shape[2]\<close> of them).
  Arrays of fewer than three dimensions (grey images, on which \<^verbatim>\<open>image.shape[2]\<close>
  raises) are not images of the model.
\<close>

type_synonym pixel = "8 word list"

record image =
  channels :: nat
  rows :: "pixel list list"

text \<open>All pixels of an image, row by row (numpy's flattening order).\<close>

definition pixels :: "image \<Rightarrow> pixel list" where
  "pixels img = concat (rows img)"

text \<open>Number of fully transparent pixels: those whose fourth channel is 0.\<close>

definition transparent_count :: "image \<Rightarrow> nat" where
  "transparent_count img = length (filter (\<lambda>p. p ! 3 = 0) (pixels img))"

section \<open>The compositor: \<^verbatim>\<open>replace_with_white_background\<close>\<close>

text \<open>
  \<^verbatim>\<open>
  def replace_with_white_background(image):
      if image.shape[2] == 4:
          alpha_channel = image[:, :, 3]
          transparent_mask = alpha_channel == 0
          image[transparent_mask] = [255, 255, 255, 255]
      else:
          pass
      return image
  \<close>
  The assignment through the boolean mask overwrites exactly the pixels whose
  alpha is 0. The Python function updates its argument in place and returns it;
  the model returns the updated image.
\<close>

definition white :: pixel where
  "white = [255, 255, 255, 255]"

definition whiten :: "pixel \<Rightarrow> pixel" where
  "whiten p = (if p ! 3 = 0 then white else p)"

definition replace_with_white_background :: "image \<Rightarrow> image" where
  "replace_with_white_background img =
     (if channels img = 4
      then img\<lparr>rows := map (map whiten) (rows img)\<rparr>
      else img)"

section \<open>Exceptions\<close>

text \<open>
  The program raises no exception of its own, but the library calls it makes and
  Python's indexing and division do. A computation that may raise returns
  \<open>Inl\<close> of the exception or \<open>Inr\<close> of its value, and \<open>bind_exn\<close> sequences two
  such computations the way two consecutive statements are: the second runs only
  if the first did not raise.
\<close>

datatype exn = IndexError | ZeroDivisionError | LibraryError string

definition bind_exn :: "exn + 'a \<Rightarrow> ('a \<Rightarrow> exn + 'b) \<Rightarrow> exn + 'b" where
  "bind_exn m k = (case m of Inl e \<Rightarrow> Inl e | Inr x \<Rightarrow> k x)"

section \<open>Floating-point arithmetic\<close>

text \<open>
  The scores are Python floats. The functions that compute with them take the
  arithmetic as a parameter: the operators \<^verbatim>\<open>+\<close>, \<^verbatim>\<open>-\<close>, \<^verbatim>\<open>/\<close> and \<^verbatim>\<open><\<close> on floats, and
  \<open>flit\<close>, the float that a number written in the source denotes (a decimal literal
  such as \<^verbatim>\<open>0.2\<close>, an integer operand such as \<^verbatim>\<open>4\<close> converted to float, or the
  quotient of two integers under \<^verbatim>\<open>/\<close>). \<^verbatim>\<open>a > b\<close> is \<open>fless A b a\<close>.
  What holds for every \<open>A\<close> holds whatever the floats do.
\<close>

record 'f arith =
  fadd :: "'f \<Rightarrow> 'f \<Rightarrow> 'f"
  fsub :: "'f \<Rightarrow> 'f \<Rightarrow> 'f"
  fdiv :: "'f \<Rightarrow> 'f \<Rightarrow> 'f"
  fless :: "'f \<Rightarrow> 'f \<Rightarrow> bool"
  flit :: "rat \<Rightarrow> 'f"

text \<open>Exact arithmetic: the scores as real numbers, no rounding.\<close>

definition exact :: "real arith" where
  "exact = \<lparr>fadd = (+), fsub = (-), fdiv = (/), fless = (<), flit = of_rat\<rparr>"

section \<open>Double precision\<close>

text \<open>
  Python's \<^verbatim>\<open>float\<close> and numpy's \<^verbatim>\<open>float64\<close> are IEEE 754 binary64 numbers: every
  operation returns the exact result rounded to the nearest number with a 53-bit
  significand, ties going to the even significand. A finite double is given by its
  value, a rational number; the two zeros are one value here. \<open>round64\<close> rounds a
  rational number that way: with \<open>2 ^ e \<le> \<bar>x\<bar> < 2 ^ (e + 1)\<close> the doubles around
  \<open>x\<close> are the multiples of \<open>2 ^ (e - 52)\<close>, of \<open>2 ^ (- 1074)\<close> below the normal
  range, and a result of magnitude \<open>2 ^ 1024\<close> or more is an infinity.
\<close>

datatype double = Finite rat | PosInf | NegInf | NaN

definition pow2 :: "int \<Rightarrow> rat" where
  "pow2 k = (if 0 \<le> k then 2 ^ nat k else 1 / 2 ^ nat (- k))"

text \<open>The number of binary digits of a natural number.\<close>

fun bit_length :: "nat \<Rightarrow> nat" where
  "bit_length n = (if n = 0 then 0 else Suc (bit_length (n div 2)))"

declare bit_length.simps [simp del]

text \<open>For \<open>x > 0\<close>, the exponent \<open>e\<close> with \<open>2 ^ e \<le> x < 2 ^ (e + 1)\<close>.\<close>

definition floor_log2 :: "rat \<Rightarrow> int" where
  "floor_log2 x =
     (if 1 \<le> x then int (bit_length (nat \<lfloor>x\<rfloor>)) - 1
      else - int (bit_length (nat (- \<lfloor>- (1 / x)\<rfloor> - 1))))"

definition round_half_even :: "rat \<Rightarrow> int" where
  "round_half_even x =
     (let n = \<lfloor>x\<rfloor>; d = x - of_int n in
      if d < 1 / 2 then n else if 1 / 2 < d then n + 1
      else if even n then n else n + 1)"

definition round64 :: "rat \<Rightarrow> double" where
  "round64 x =
     (if x = 0 then Finite 0
      else
        let e = max (floor_log2 \<bar>x\<bar>) (- 1022);
            q = pow2 (e - 52);
            r = of_int (round_half_even (x / q)) * q
        in if pow2 1024 \<le> r then PosInf
           else if r \<le> - pow2 1024 then NegInf
           else Finite r)"

fun add64 :: "double \<Rightarrow> double \<Rightarrow> double" where
  "add64 (Finite a) (Finite b) = round64 (a + b)"
| "add64 NaN _ = NaN"
| "add64 _ NaN = NaN"
| "add64 PosInf NegInf = NaN"
| "add64 NegInf PosInf = NaN"
| "add64 PosInf _ = PosInf"
| "add64 NegInf _ = NegInf"
| "add64 _ PosInf = PosInf"
| "add64 _ NegInf = NegInf"

fun neg64 :: "double \<Rightarrow> double" where
  "neg64 (Finite a) = Finite (- a)"
| "neg64 PosInf = NegInf"
| "neg64 NegInf = PosInf"
| "neg64 NaN = NaN"

definition sub64 :: "double \<Rightarrow> double \<Rightarrow> double" where
  "sub64 a b = add64 a (neg64 b)"

text \<open>
  Dividing by zero raises \<^verbatim>\<open>ZeroDivisionError\<close> for a Python float and gives an
  infinity or \<^verbatim>\<open>nan\<close> for a numpy float; the program divides by the literal \<^verbatim>\<open>4\<close>
  only, and \<open>div64\<close> gives \<open>NaN\<close> for a zero divisor.
\<close>

fun div64 :: "double \<Rightarrow> double \<Rightarrow> double" where
  "div64 (Finite a) (Finite b) = (if b = 0 then NaN else round64 (a / b))"
| "div64 NaN _ = NaN"
| "div64 _ NaN = NaN"
| "div64 (Finite a) _ = Finite 0"
| "div64 PosInf (Finite b) = (if 0 \<le> b then PosInf else NegInf)"
| "div64 NegInf (Finite b) = (if 0 \<le> b then NegInf else PosInf)"
| "div64 _ _ = NaN"

fun less64 :: "double \<Rightarrow> double \<Rightarrow> bool" where
  "less64 (Finite a) (Finite b) = (a < b)"
| "less64 NaN _ = False"
| "less64 _ NaN = False"
| "less64 NegInf b = (b \<noteq> NegInf)"
| "less64 a PosInf = (a \<noteq> PosInf)"
| "less64 _ _ = False"

definition binary64 :: "double arith" where
  "binary64 = \<lparr>fadd = add64, fsub = sub64, fdiv = div64, fless = less64, flit = round64\<rparr>"

section \<open>Single precision\<close>

text \<open>
  The saliency map is an array of \<^verbatim>\<open>float32\<close>, IEEE 754 binary32: a 24-bit significand,
  the doubles' rounding rule, multiples of \<open>2 ^ (- 149)\<close> below the normal range and
  infinities from \<open>2 ^ 128\<close> on. A single is given by its value in the same way as a
  double, and \<open>v\<close> is the value of a single exactly when \<open>round32 v = Finite v\<close>.
\<close>

type_synonym single = double

definition round32 :: "rat \<Rightarrow> single" where
  "round32 x =
     (if x = 0 then Finite 0
      else
        let e = max (floor_log2 \<bar>x\<bar>) (- 126);
            q = pow2 (e - 23);
            r = of_int (round_half_even (x / q)) * q
        in if pow2 128 \<le> r then PosInf
           else if r \<le> - pow2 128 then NegInf
           else Finite r)"

section \<open>The file system\<close>

text \<open>
  The file system, as far as the driver changes it: the directories it has created
  and the files it has written with their contents, in the order of writing (a later
  entry for a path replaces an earlier one). \<^verbatim>\<open>os.makedirs\<close> is recorded by the
  path it is given.
\<close>

record filesystem =
  dirs :: "string list"
  files :: "(string \<times> image) list"

definition path_exists :: "filesystem \<Rightarrow> string \<Rightarrow> bool" where
  "path_exists fs p = (p \<in> set (dirs fs) \<or> p \<in> set (map fst (files fs)))"

section \<open>Library calls\<close>

text \<open>
  The calls into OpenCV, scikit-image, rembg, onnxruntime and the operating system
  are parameters of the model. \<^verbatim>\<open>compare_images\<close>, \<^verbatim>\<open>edge_similarity\<close> and
  \<^verbatim>\<open>histogram_difference\<close> consist of such calls only (structural similarity of the
  grey images, of their Canny edge maps, correlation of their histograms), and so do
  \<^verbatim>\<open>remove_background_u2net\<close> and \<^verbatim>\<open>remove_background_rembg\<close>.
  \<open>saliency_map\<close> is the map that \<^verbatim>\<open>computeSaliency\<close> returns for the image read
  from a path, and \<open>imread_rgb\<close> the image that \<^verbatim>\<open>process_image\<close> reads with
  \<^verbatim>\<open>cv2.imread\<close> and converts with \<^verbatim>\<open>cv2.cvtColor\<close>. \<open>np_mean\<close> is \<^verbatim>\<open>np.mean\<close> on such a
  map: numpy adds the values in single precision, in an order that depends on the
  size of the array, and divides by their number; the result is a single, \<^verbatim>\<open>nan\<close>
  for an array without elements.
\<close>

record 'f libs =
  compare_images :: "image \<Rightarrow> image \<Rightarrow> exn + 'f"
  edge_similarity :: "image \<Rightarrow> image \<Rightarrow> exn + 'f"
  histogram_difference :: "image \<Rightarrow> image \<Rightarrow> exn + 'f"
  saliency_map :: "string \<Rightarrow> exn + rat list list"
  np_mean :: "rat list list \<Rightarrow> single"
  imread_rgb :: "string \<Rightarrow> exn + image"
  remove_background_u2net :: "string \<Rightarrow> exn + image"
  remove_background_rembg :: "string \<Rightarrow> exn + image"
  listdir :: "string \<Rightarrow> exn + string list"
  makedirs_error :: "string \<Rightarrow> filesystem \<Rightarrow> (exn \<times> filesystem) option"
  save_error :: "image \<Rightarrow> string \<Rightarrow> filesystem \<Rightarrow> (exn \<times> filesystem) option"

section \<open>The comparator\<close>

text \<open>
  \<^verbatim>\<open>
  def foreground_pixel_analysis(output_img):
      alpha_channel = output_img[:, :, 3]
      return np.count_nonzero(alpha_channel) / alpha_channel.size
  \<close>
  Index 3 on the last axis raises \<^verbatim>\<open>IndexError\<close> when there are fewer than four
  channels; both operands of the division are Python integers, so an image without
  pixels raises \<^verbatim>\<open>ZeroDivisionError\<close>.
\<close>

definition foreground_pixel_analysis :: "'f arith \<Rightarrow> image \<Rightarrow> exn + 'f" where
  "foreground_pixel_analysis A output_img =
     (if channels output_img < 4 then Inl IndexError
      else let alpha_channel = map (\<lambda>p. p ! 3) (pixels output_img) in
        if length alpha_channel = 0 then Inl ZeroDivisionError
        else Inr (flit A (of_nat (length (filter (\<lambda>a. a \<noteq> 0) alpha_channel)) /
                          of_nat (length alpha_channel))))"

text \<open>
  \<^verbatim>\<open>
  def needs_background_removal(img_path):
      image = cv2.imread(img_path, cv2.IMREAD_COLOR)
      saliency = cv2.saliency.StaticSaliencyFineGrained_create()
      _, saliency_map = saliency.computeSaliency(image)
      threshold = 0.4
      saliency_score = np.mean(saliency_map)
      return saliency_score < threshold
  \<close>
  The score is the single that \<^verbatim>\<open>np.mean\<close> returns and the threshold the double
  that \<^verbatim>\<open>0.4\<close> denotes. numpy compares the two by value, after converting one of them
  to the type of the other; for the value of a single the outcome is the same either
  way, and the same as for the number \<open>4/10\<close> itself (\<open>single_below_threshold\<close>
  below). A comparison with \<^verbatim>\<open>nan\<close> is false.
\<close>

definition needs_background_removal :: "'f libs \<Rightarrow> string \<Rightarrow> exn + bool" where
  "needs_background_removal E img_path =
     bind_exn (saliency_map E img_path) (\<lambda>saliency_map.
       let threshold = round64 (4 / 10);
           saliency_score = np_mean E saliency_map
       in Inr (less64 saliency_score threshold))"

text \<open>
  \<^verbatim>\<open>
  u2net_score = (score_ssim + score_foreground + score_edge + score_hist) / 4
  rembg_score = (1 - score_ssim + (1 - score_foreground) + (1 - score_edge)
                 + (1 - score_hist)) / 4
  \<close>
  with the operations in Python's order: sums associate to the left.
\<close>

definition u2net_score :: "'f arith \<Rightarrow> 'f \<Rightarrow> 'f \<Rightarrow> 'f \<Rightarrow> 'f \<Rightarrow> 'f" where
  "u2net_score A score_ssim score_foreground score_edge score_hist =
     fdiv A
       (fadd A (fadd A (fadd A score_ssim score_foreground) score_edge) score_hist)
       (flit A 4)"

definition rembg_score :: "'f arith \<Rightarrow> 'f \<Rightarrow> 'f \<Rightarrow> 'f \<Rightarrow> 'f \<Rightarrow> 'f" where
  "rembg_score A score_ssim score_foreground score_edge score_hist =
     fdiv A
       (fadd A
          (fadd A
             (fadd A (fsub A (flit A 1) score_ssim) (fsub A (flit A 1) score_foreground))
             (fsub A (flit A 1) score_edge))
          (fsub A (flit A 1) score_hist))
       (flit A 4)"

text \<open>
  \<^verbatim>\<open>
  def decide_best_method(output_u2net, output_rembg, original_image, image_path,
                         min_foreground_threshold=0.2):
      score_ssim = compare_images(output_u2net, output_rembg)
      score_foreground = foreground_pixel_analysis(output_u2net)
      score_edge = edge_similarity(output_u2net, output_rembg)
      score_hist = histogram_difference(output_u2net, output_rembg)
      if needs_background_removal(image_path) and score_foreground < min_foreground_threshold:
          print("Skipping background removal: Foreground too small")
          return original_image, "Original"
      u2net_score = ...
      rembg_score = ...
      best_output = output_u2net if u2net_score > rembg_score else output_rembg
      best_method = "U-2-Net" if u2net_score > rembg_score else "rembg"
      return best_output, best_method
  \<close>
  The four scores are computed first, in this order, then the gate is called (it is
  the left operand of \<^verbatim>\<open>and\<close>, so it is called whatever the foreground score is).
  The printed line is not part of the model.
\<close>

definition decide_best_method ::
  "'f arith \<Rightarrow> 'f libs \<Rightarrow> image \<Rightarrow> image \<Rightarrow> image \<Rightarrow> string \<Rightarrow> 'f \<Rightarrow> exn + image \<times> string"
where
  "decide_best_method A E output_u2net output_rembg original_image image_path
       min_foreground_threshold =
     bind_exn (compare_images E output_u2net output_rembg) (\<lambda>score_ssim.
     bind_exn (foreground_pixel_analysis A output_u2net) (\<lambda>score_foreground.
     bind_exn (edge_similarity E output_u2net output_rembg) (\<lambda>score_edge.
     bind_exn (histogram_difference E output_u2net output_rembg) (\<lambda>score_hist.
     bind_exn (needs_background_removal E image_path) (\<lambda>needs.
       if needs \<and> fless A score_foreground min_foreground_threshold
       then Inr (original_image, ''Original'')
       else
         let u2net = u2net_score A score_ssim score_foreground score_edge score_hist;
             rembg = rembg_score A score_ssim score_foreground score_edge score_hist;
             best_output = (if fless A rembg u2net then output_u2net else output_rembg);
             best_method = (if fless A rembg u2net then ''U-2-Net'' else ''rembg'')
         in Inr (best_output, best_method))))))"

text \<open>
  \<^verbatim>\<open>
  def process_image(image_path):
      original_image = cv2.imread(image_path, cv2.IMREAD_UNCHANGED)
      original_image = cv2.cvtColor(original_image, cv2.COLOR_BGR2RGB)
      output_u2net = remove_background_u2net(image_path)
      output_rembg = remove_background_rembg(image_path)
      best_output, best_method = decide_best_method(output_u2net, output_rembg,
                                                    original_image, image_path)
      best_output_with_white_bg = replace_with_white_background(best_output)
      print(f"Using method: {best_method}")
      return best_output_with_white_bg
  \<close>
  The call leaves \<^verbatim>\<open>min_foreground_threshold\<close> at its default \<^verbatim>\<open>0.2\<close>.
\<close>

definition process_image :: "'f arith \<Rightarrow> 'f libs \<Rightarrow> string \<Rightarrow> exn + image" where
  "process_image A E image_path =
     bind_exn (imread_rgb E image_path) (\<lambda>original_image.
     bind_exn (remove_background_u2net E image_path) (\<lambda>output_u2net.
     bind_exn (remove_background_rembg E image_path) (\<lambda>output_rembg.
     bind_exn (decide_best_method A E output_u2net output_rembg original_image image_path
                 (flit A (2 / 10))) (\<lambda>(best_output, best_method).
       Inr (replace_with_white_background best_output)))))"

section \<open>The directory driver\<close>

text \<open>
  File names are strings of bytes. \<^verbatim>\<open>str.lower\<close> is modelled on the ASCII letters and
  leaves every other character as it is; Python changes other letters too, but none
  into a character of the three suffixes below, so the suffix test is the same.
\<close>

definition lower_char :: "char \<Rightarrow> char" where
  "lower_char c =
     (case map_of (zip ''ABCDEFGHIJKLMNOPQRSTUVWXYZ'' ''abcdefghijklmnopqrstuvwxyz'') c of
        None \<Rightarrow> c
      | Some l \<Rightarrow> l)"

definition lower :: "string \<Rightarrow> string" where
  "lower s = map lower_char s"

definition endswith :: "string \<Rightarrow> string \<Rightarrow> bool" where
  "endswith s suffix =
     (length suffix \<le> length s \<and> drop (length s - length suffix) s = suffix)"

definition image_extensions :: "string list" where
  "image_extensions = [''.jpg'', ''.jpeg'', ''.png'']"

text \<open>\<^verbatim>\<open>filename.lower().endswith(image_extensions)\<close>, the suffixes given as a tuple.\<close>

definition is_image_name :: "string \<Rightarrow> bool" where
  "is_image_name filename = list_ex (endswith (lower filename)) image_extensions"

text \<open>\<^verbatim>\<open>os.path.join\<close> of two components, with \<^verbatim>\<open>/\<close> as the separator.\<close>

definition path_join :: "string \<Rightarrow> string \<Rightarrow> string" where
  "path_join a b =
     (if take 1 b = ''/'' then b
      else if a = [] \<or> endswith a ''/'' then a @ b
      else a @ ''/'' @ b)"

text \<open>
  \<^verbatim>\<open>str.rfind\<close> for a single character: the last index where it occurs, or \<open>-1\<close>.
\<close>

definition rfind :: "char \<Rightarrow> string \<Rightarrow> int" where
  "rfind c s =
     (case filter (\<lambda>i. s ! i = c) (rev [0..<length s]) of
        [] \<Rightarrow> - 1
      | i # _ \<Rightarrow> int i)"

text \<open>
  \<^verbatim>\<open>os.path.splitext\<close>:
  \<^verbatim>\<open>
  sepIndex = p.rfind(sep)
  dotIndex = p.rfind(extsep)
  if dotIndex > sepIndex:
      filenameIndex = sepIndex + 1
      while filenameIndex < dotIndex:
          if p[filenameIndex:filenameIndex+1] != extsep:
              return p[:dotIndex], p[dotIndex:]
          filenameIndex += 1
  return p, p[:0]
  \<close>
  The loop splits at the last dot as soon as it meets a character other than a dot
  between the last separator and that dot.
\<close>

definition splitext :: "string \<Rightarrow> string \<times> string" where
  "splitext p =
     (let sepIndex = rfind CHR ''/'' p;
          dotIndex = rfind CHR ''.'' p
      in if dotIndex > sepIndex \<and>
            list_ex (\<lambda>c. c \<noteq> CHR ''.'')
              (take (nat (dotIndex - (sepIndex + 1))) (drop (nat (sepIndex + 1)) p))
         then (take (nat dotIndex) p, drop (nat dotIndex) p)
         else (p, []))"

text \<open>
  \<^verbatim>\<open>os.makedirs\<close> and the writing of a file can raise (a path that cannot be created,
  missing permissions, an array that is no image). When and with what, and what the
  failed call leaves behind, is for the libraries to say: \<open>makedirs_error\<close> and
  \<open>save_error\<close> give the exception and the file system left, or \<open>None\<close> when the call
  succeeds; then the directory or the file is recorded.
\<close>

definition makedirs :: "'f libs \<Rightarrow> string \<Rightarrow> filesystem \<Rightarrow> (exn + unit) \<times> filesystem" where
  "makedirs E p fs =
     (case makedirs_error E p fs of
        Some (e, fs') \<Rightarrow> (Inl e, fs')
      | None \<Rightarrow> (Inr (), fs\<lparr>dirs := dirs fs @ [p]\<rparr>))"

text \<open>\<^verbatim>\<open>Image.fromarray(image).save(path, "PNG")\<close>\<close>

definition image_save ::
  "'f libs \<Rightarrow> image \<Rightarrow> string \<Rightarrow> filesystem \<Rightarrow> (exn + unit) \<times> filesystem"
where
  "image_save E img path fs =
     (case save_error E img path fs of
        Some (e, fs') \<Rightarrow> (Inl e, fs')
      | None \<Rightarrow> (Inr (), fs\<lparr>files := files fs @ [(path, img)]\<rparr>))"

text \<open>
  \<^verbatim>\<open>
  def process_and_save(image_path, output_path):
      processed_image = process_image(image_path)
      Image.fromarray(processed_image).save(output_path, "PNG")
  \<close>
  A function that changes the file system returns its outcome, the exception or
  \<open>()\<close>, together with the file system it leaves behind.
\<close>

definition process_and_save ::
  "'f arith \<Rightarrow> 'f libs \<Rightarrow> string \<Rightarrow> string \<Rightarrow> filesystem \<Rightarrow> (exn + unit) \<times> filesystem"
where
  "process_and_save A E image_path output_path fs =
     (case process_image A E image_path of
        Inl e \<Rightarrow> (Inl e, fs)
      | Inr processed_image \<Rightarrow> image_save E processed_image output_path fs)"

text \<open>
  \<^verbatim>\<open>
  def process_directory(input_dir, output_dir):
      if not os.path.exists(output_dir):
          os.makedirs(output_dir)
      image_extensions = (".jpg", ".jpeg", ".png")
      for filename in os.listdir(input_dir):
          if filename.lower().endswith(image_extensions):
              input_path = os.path.join(input_dir, filename)
              output_path = os.path.join(output_dir, os.path.splitext(filename)[0] + ".png")
              process_and_save(input_path, output_path)
  \<close>
  \<open>process_files\<close> is the \<^verbatim>\<open>for\<close> loop over the names that \<^verbatim>\<open>os.listdir\<close> returned.
  Nothing catches an exception, so the first one ends the loop and the function.
\<close>

fun process_files ::
  "'f arith \<Rightarrow> 'f libs \<Rightarrow> string \<Rightarrow> string \<Rightarrow> string list \<Rightarrow> filesystem
     \<Rightarrow> (exn + unit) \<times> filesystem"
where
  "process_files A E input_dir output_dir [] fs = (Inr (), fs)"
| "process_files A E input_dir output_dir (filename # rest) fs =
     (if is_image_name filename
      then
        let input_path = path_join input_dir filename;
            output_path = path_join output_dir (fst (splitext filename) @ ''.png'')
        in case process_and_save A E input_path output_path fs of
             (Inl e, fs') \<Rightarrow> (Inl e, fs')
           | (Inr _, fs') \<Rightarrow> process_files A E input_dir output_dir rest fs'
      else process_files A E input_dir output_dir rest fs)"

definition process_directory ::
  "'f arith \<Rightarrow> 'f libs \<Rightarrow> string \<Rightarrow> string \<Rightarrow> filesystem \<Rightarrow> (exn + unit) \<times> filesystem"
where
  "process_directory A E input_dir output_dir fs =
     (case (if \<not> path_exists fs output_dir then makedirs E output_dir fs else (Inr (), fs)) of
        (Inl e, fs1) \<Rightarrow> (Inl e, fs1)
      | (Inr _, fs1) \<Rightarrow>
          (case listdir E input_dir of
             Inl e \<Rightarrow> (Inl e, fs1)
           | Inr filenames \<Rightarrow> process_files A E input_dir output_dir filenames fs1))"

section \<open>Example inputs\<close>

text \<open>
  Small images and library behaviours at which the theorems below are evaluated:
  an opaque pixel, an image with one opaque pixel among two and one with one among
  ten, a three-channel original, and libraries whose three similarity scores and
  saliency map are constants. Reading \<^verbatim>\<open>broken.jpg\<close> fails, so does writing
  \<^verbatim>\<open>locked.png\<close>, and so does creating a directory with the empty name. \<open>mean32\<close> is
  a mean in single precision that adds the values from left to right and rounds the
  quotient, computed in double precision, to a single. \<open>example_map\<close> is a saliency
  map whose mean is just above \<open>0.4\<close> and is rounded below it (whatever the order of
  the additions: the sum \<open>3.6000000238\<close> lies half way between two singles).
\<close>

definition add32 :: "single \<Rightarrow> rat \<Rightarrow> single" where
  "add32 acc x = (case acc of Finite a \<Rightarrow> round32 (a + x) | other \<Rightarrow> other)"

definition mean32 :: "rat list list \<Rightarrow> single" where
  "mean32 m =
     (let vs = concat m in
      if vs = [] then NaN
      else case foldl add32 (Finite 0) vs of
             Finite s \<Rightarrow>
               (case round64 (s / of_nat (length vs)) of
                  Finite y \<Rightarrow> round32 y
                | other \<Rightarrow> other)
           | other \<Rightarrow> other)"

definition example_map :: "rat list list" where
  "example_map = [[1, 0, 1], [0, 0, 0], [5033165 / 8388608, 0, 1]]"


definition example_opaque :: image where
  "example_opaque = \<lparr>channels = 4, rows = [[[10, 20, 30, 255]]]\<rparr>"

definition example_half :: image where
  "example_half = \<lparr>channels = 4, rows = [[[10, 20, 30, 255], [0, 0, 0, 0]]]\<rparr>"

definition example_sparse :: image where
  "example_sparse = \<lparr>channels = 4,
     rows = [[[0, 0, 0, 0], [0, 0, 0, 0], [0, 0, 0, 0], [0, 0, 0, 0], [0, 0, 0, 0]],
             [[0, 0, 0, 0], [0, 0, 0, 0], [7, 8, 9, 128], [0, 0, 0, 0], [0, 0, 0, 0]]]\<rparr>"

definition example_original :: image where
  "example_original = \<lparr>channels = 3, rows = [[[30, 20, 10]]]\<rparr>"

definition example_libs :: "'f \<Rightarrow> 'f \<Rightarrow> 'f \<Rightarrow> rat list list \<Rightarrow> 'f libs" where
  "example_libs s e h sal =
     \<lparr>compare_images = (\<lambda>a b. Inr s),
      edge_similarity = (\<lambda>a b. Inr e),
      histogram_difference = (\<lambda>a b. Inr h),
      saliency_map = (\<lambda>p. Inr sal),
      np_mean = mean32,
      imread_rgb = (\<lambda>p. if endswith p ''broken.jpg'' then Inl (LibraryError ''cv2.error'')
                          else Inr example_original),
      remove_background_u2net = (\<lambda>p. Inr example_sparse),
      remove_background_rembg = (\<lambda>p. Inr example_opaque),
      listdir = (\<lambda>d. if d = ''in'' then Inr [''a.JPG'', ''notes.txt'', ''b.png'']
                       else if d = ''in2'' then Inr [''a.JPG'', ''broken.jpg'', ''b.png'']
                       else if d = ''in3'' then Inr [''a.JPG'', ''locked.png'', ''b.png'']
                       else Inl (LibraryError ''FileNotFoundError'')),
      makedirs_error = (\<lambda>p fs. if p = [] then Some (LibraryError ''FileNotFoundError'', fs)
                                else None),
      save_error = (\<lambda>img p fs. if endswith p ''locked.png''
                                  then Some (LibraryError ''PermissionError'', fs)
                                  else None)\<rparr>"

section \<open>Properties of the compositor\<close>

lemma whiten_alpha: "whiten p ! 3 \<noteq> 0"
  by (simp add: whiten_def white_def)

lemma whiten_idem: "whiten (whiten p) = whiten p"
  by (simp add: whiten_def white_def)

lemma filter_transparent_whiten: "filter (\<lambda>p. p ! 3 = 0) (map whiten ps) = []"
  by (induction ps) (simp_all add: whiten_alpha)

lemma concat_map_map: "concat (map (map f) xss) = map f (concat xss)"
  by (induction xss) simp_all

section \<open>Properties of the comparator\<close>

text \<open>
  When its four scores and the gate return, \<^verbatim>\<open>decide_best_method\<close> returns, and
  what it returns depends on two comparisons only. This holds in every arithmetic.
\<close>

lemma decide_best_method_eval:
  assumes "compare_images E u2 rb = Inr s"
    and "foreground_pixel_analysis A u2 = Inr f"
    and "edge_similarity E u2 rb = Inr e"
    and "histogram_difference E u2 rb = Inr h"
    and "needs_background_removal E path = Inr g"
  shows "decide_best_method A E u2 rb orig path thr =
           Inr (if g \<and> fless A f thr then (orig, ''Original'')
                else if fless A (rembg_score A s f e h) (u2net_score A s f e h)
                     then (u2, ''U-2-Net'') else (rb, ''rembg''))"
  using assms by (simp add: decide_best_method_def bind_exn_def Let_def)

lemma decide_best_method_returns:
  assumes "decide_best_method A E u2 rb orig path thr = Inr r"
  shows "\<exists>s f e h g. compare_images E u2 rb = Inr s \<and>
           foreground_pixel_analysis A u2 = Inr f \<and>
           edge_similarity E u2 rb = Inr e \<and>
           histogram_difference E u2 rb = Inr h \<and>
           needs_background_removal E path = Inr g"
  using assms by (auto simp: decide_best_method_def bind_exn_def split: sum.splits)

lemma u2net_score_exact: "u2net_score exact s f e h = (s + f + e + h) / 4"
  by (simp add: u2net_score_def exact_def)

lemma rembg_score_exact:
  "rembg_score exact s f e h = ((1 - s) + (1 - f) + (1 - e) + (1 - h)) / 4"
  by (simp add: rembg_score_def exact_def)

lemma fless_exact: "fless exact x y \<longleftrightarrow> x < y"
  by (simp add: exact_def)

text \<open>The foreground score is a fraction of the pixels.\<close>

lemma foreground_range:
  assumes "foreground_pixel_analysis exact img = Inr f"
  shows "0 \<le> f \<and> f \<le> 1"
proof -
  let ?al = "map (\<lambda>p. p ! 3) (pixels img)"
  have "length (filter (\<lambda>a. a \<noteq> 0) ?al) \<le> length ?al"
    by (rule length_filter_le)
  with assms show ?thesis
    by (auto simp: foreground_pixel_analysis_def exact_def Let_def of_rat_divide
        divide_le_eq_1 split: if_splits)
qed

lemma foreground_examples:
  "foreground_pixel_analysis exact example_opaque = Inr 1"
  "foreground_pixel_analysis exact example_half = Inr (1 / 2)"
  "foreground_pixel_analysis exact example_sparse = Inr (1 / 10)"
  by (simp_all add: foreground_pixel_analysis_def pixels_def exact_def of_rat_divide
      example_opaque_def example_half_def example_sparse_def)

lemma example_libs_scores:
  "compare_images (example_libs s e h sal) a b = Inr s"
  "edge_similarity (example_libs s e h sal) a b = Inr e"
  "histogram_difference (example_libs s e h sal) a b = Inr h"
  by (simp_all add: example_libs_def)

section \<open>Evaluating double precision\<close>

lemma bit_length_0: "bit_length 0 = 0"
  by (simp add: bit_length.simps)

lemma bit_length_pos: "0 < n \<Longrightarrow> bit_length n = Suc (bit_length (n div 2))"
  by (subst bit_length.simps) simp

lemma floor_rat_numeral: "\<lfloor>numeral a / numeral b :: rat\<rfloor> = numeral a div numeral b"
  by (metis floor_divide_of_int_eq of_int_numeral)

lemma floor_rat_minus_numeral:
  "\<lfloor>- (numeral a / numeral b) :: rat\<rfloor> = - numeral a div numeral b"
  by (metis divide_minus_left floor_divide_of_int_eq of_int_neg_numeral of_int_numeral)

lemmas round64_eval = round64_def floor_log2_def round_half_even_def pow2_def
  bit_length_0 bit_length_pos floor_rat_numeral floor_rat_minus_numeral Let_def

text \<open>The doubles that \<^verbatim>\<open>0.3\<close>, \<^verbatim>\<open>0.4\<close>, \<^verbatim>\<open>0.5\<close>, \<^verbatim>\<open>0.2\<close>, \<^verbatim>\<open>1\<close> and \<^verbatim>\<open>4\<close> denote.\<close>

lemma round64_literals:
  "round64 (3 / 10) = Finite (5404319552844595 / 18014398509481984)"
  "round64 (4 / 10) = Finite (3602879701896397 / 9007199254740992)"
  "round64 (2 / 10) = Finite (3602879701896397 / 18014398509481984)"
  "round64 (1 / 2) = Finite (1 / 2)"
  "round64 1 = Finite 1"
  "round64 4 = Finite 4"
  by (simp_all add: round64_eval)

lemma u2net_score_binary64_example:
  "u2net_score binary64 (round64 (3 / 10)) (Finite 1) (round64 (4 / 10)) (round64 (3 / 10)) =
     Finite (1 / 2)"
  by (simp add: round64_literals u2net_score_def binary64_def) (simp add: round64_eval)

lemma rembg_score_binary64_example:
  "rembg_score binary64 (round64 (3 / 10)) (Finite 1) (round64 (4 / 10)) (round64 (3 / 10)) =
     Finite (9007199254740991 / 18014398509481984)"
  by (simp add: round64_literals rembg_score_def binary64_def sub64_def) (simp add: round64_eval)

lemma foreground_binary64_example:
  "foreground_pixel_analysis binary64 example_opaque = Inr (Finite 1)"
  by (simp add: foreground_pixel_analysis_def pixels_def binary64_def example_opaque_def
      round64_literals)

text \<open>
  The scores \<^verbatim>\<open>0.3\<close>, \<^verbatim>\<open>1.0\<close>, \<^verbatim>\<open>1.0\<close>, \<^verbatim>\<open>0.3\<close>: the two composite scores and their sum.
\<close>

lemma u2net_score_binary64_sum_example:
  "u2net_score binary64 (round64 (3 / 10)) (Finite 1) (Finite 1) (round64 (3 / 10)) =
     Finite (1463669878895411 / 2251799813685248)"
  by (simp add: round64_literals u2net_score_def binary64_def) (simp add: round64_eval)

lemma rembg_score_binary64_sum_example:
  "rembg_score binary64 (round64 (3 / 10)) (Finite 1) (Finite 1) (round64 (3 / 10)) =
     Finite (3152519739159347 / 9007199254740992)"
  by (simp add: round64_literals rembg_score_def binary64_def sub64_def) (simp add: round64_eval)

lemma add64_sum_example:
  "add64 (Finite (1463669878895411 / 2251799813685248))
     (Finite (3152519739159347 / 9007199254740992)) =
     Finite (9007199254740991 / 9007199254740992)"
  by (simp add: round64_eval)

lemma foreground_binary64_sparse:
  "foreground_pixel_analysis binary64 example_sparse =
     Inr (Finite (3602879701896397 / 36028797018963968))"
  by (simp add: foreground_pixel_analysis_def pixels_def binary64_def example_sparse_def)
    (simp add: round64_eval)

lemma foreground_binary64_half:
  "foreground_pixel_analysis binary64 example_half = Inr (Finite (1 / 2))"
  by (simp add: foreground_pixel_analysis_def pixels_def binary64_def example_half_def
      round64_literals)

section \<open>Accuracy of double precision\<close>

lemma pow2_power_int: "pow2 k = power_int 2 k"
  by (simp add: pow2_def power_int_def inverse_eq_divide power_one_over)

lemma pow2_pos: "0 < pow2 k"
  by (simp add: pow2_power_int)

lemma pow2_mono: "j \<le> k \<Longrightarrow> pow2 j \<le> pow2 k"
  by (simp add: pow2_power_int power_int_increasing)

lemma pow2_less_imp: "pow2 j < pow2 k \<Longrightarrow> j < k"
  using pow2_mono [of k j] by (cases "j < k") auto

lemma bit_length_bounds:
  "0 < n \<Longrightarrow> 2 ^ (bit_length n - 1) \<le> n \<and> n < 2 ^ bit_length n"
proof (induction n rule: bit_length.induct)
  case (1 n)
  show ?case
  proof (cases "n div 2 = 0")
    case True
    with "1.prems" have "n = 1" by (simp add: div_eq_0_iff)
    then show ?thesis by (simp add: bit_length_pos bit_length_0)
  next
    case False
    then have pos: "0 < n div 2" by simp
    with "1.IH" "1.prems" have IH: "2 ^ (bit_length (n div 2) - 1) \<le> n div 2"
      "n div 2 < 2 ^ bit_length (n div 2)" by simp_all
    have bl: "bit_length n = Suc (bit_length (n div 2))"
      using "1.prems" by (rule bit_length_pos)
    have "0 < bit_length (n div 2)"
      using pos by (simp add: bit_length_pos)
    then have "(2 :: nat) ^ bit_length (n div 2) = 2 * 2 ^ (bit_length (n div 2) - 1)"
      by (cases "bit_length (n div 2)") simp_all
    moreover have "2 * (n div 2) \<le> n" "n < 2 * (n div 2) + 2"
      by linarith+
    ultimately have "2 ^ bit_length (n div 2) \<le> n" "n < 2 * 2 ^ bit_length (n div 2)"
      using IH by linarith+
    then show ?thesis by (simp add: bl)
  qed
qed

text \<open>\<open>floor_log2\<close> computes an exponent whose power of two does not exceed \<open>x\<close>.\<close>

lemma floor_log2_le:
  assumes "0 < x"
  shows "pow2 (floor_log2 x) \<le> x"
proof (cases "1 \<le> x")
  case True
  let ?n = "nat \<lfloor>x\<rfloor>"
  from True have n: "0 < ?n" by simp
  then have "0 < bit_length ?n" by (simp add: bit_length_pos)
  then have "pow2 (floor_log2 x) = 2 ^ (bit_length ?n - 1)"
    using True by (simp add: floor_log2_def pow2_def nat_diff_distrib)
  also have "\<dots> \<le> of_nat ?n"
    using bit_length_bounds [OF n] by (metis of_nat_le_iff of_nat_numeral of_nat_power)
  also have "\<dots> \<le> x"
    using True by (simp add: of_nat_nat)
  finally show ?thesis .
next
  case False
  let ?m = "- \<lfloor>- (1 / x)\<rfloor>"
  let ?k = "bit_length (nat (?m - 1))"
  from False assms have "1 < 1 / x" by simp
  have up: "1 / x \<le> of_int ?m"
    by (metis ceiling_def le_of_int_ceiling)
  with \<open>1 < 1 / x\<close> have "1 < (of_int ?m :: rat)" by linarith
  then have m: "2 \<le> ?m" by linarith
  then have "0 < nat (?m - 1)" by simp
  from bit_length_bounds [OF this] have "nat (?m - 1) < 2 ^ ?k" by simp
  then have "?m - 1 < 2 ^ ?k" using m by (simp add: nat_less_iff)
  then have "?m \<le> 2 ^ ?k" by simp
  then have "(of_int ?m :: rat) \<le> 2 ^ ?k"
    by (metis of_int_le_iff of_int_numeral of_int_power)
  with up have "1 / x \<le> 2 ^ ?k" by linarith
  with assms have "1 / 2 ^ ?k \<le> x"
    by (simp add: field_simps)
  moreover have "pow2 (floor_log2 x) = 1 / 2 ^ ?k"
    using False by (simp add: floor_log2_def pow2_def)
  ultimately show ?thesis by simp
qed

lemma round_half_even_error: "\<bar>of_int (round_half_even x) - x\<bar> \<le> 1 / 2"
proof -
  have "of_int \<lfloor>x\<rfloor> \<le> x" "x < of_int \<lfloor>x\<rfloor> + 1" by linarith+
  then show ?thesis
    by (auto simp: round_half_even_def Let_def)
qed

text \<open>
  On numbers of magnitude at most 8 rounding gives a finite double, and errs by at
  most \<open>2 ^ (- 50)\<close>.
\<close>

lemma round64_error:
  assumes "\<bar>x\<bar> \<le> 8"
  shows "\<exists>y. round64 x = Finite y \<and> \<bar>y - x\<bar> \<le> 1 / 2 ^ 50"
proof (cases "x = 0")
  case True
  then show ?thesis by (simp add: round64_def)
next
  case False
  define e where "e = max (floor_log2 \<bar>x\<bar>) (- 1022)"
  define q where "q = pow2 (e - 52)"
  define r where "r = of_int (round_half_even (x / q)) * q"
  have q: "0 < q" by (simp add: q_def pow2_pos)
  from False have "pow2 (floor_log2 \<bar>x\<bar>) \<le> \<bar>x\<bar>" by (intro floor_log2_le) simp
  with assms have "pow2 (floor_log2 \<bar>x\<bar>) < pow2 4" by (simp add: pow2_def)
  then have "floor_log2 \<bar>x\<bar> < 4" by (rule pow2_less_imp)
  then have "e - 52 \<le> - 49" by (simp add: e_def)
  then have "q \<le> pow2 (- 49)" unfolding q_def by (rule pow2_mono)
  then have q49: "q \<le> 1 / 2 ^ 49" by (simp add: pow2_def)
  have "\<bar>r - x\<bar> = \<bar>of_int (round_half_even (x / q)) - x / q\<bar> * q"
    using q by (simp add: r_def abs_mult [symmetric] field_simps)
  also have "\<dots> \<le> (1 / 2) * q"
    using q round_half_even_error [of "x / q"] by (intro mult_right_mono) simp_all
  also have "\<dots> \<le> 1 / 2 ^ 50"
    using q49 by simp
  finally have err: "\<bar>r - x\<bar> \<le> 1 / 2 ^ 50" .
  moreover have "(1 :: rat) / 2 ^ 50 \<le> 1" by simp
  ultimately have "\<bar>r\<bar> \<le> 9" using assms by linarith
  moreover have "(9 :: rat) < pow2 1024"
    using pow2_mono [of 4 1024] by (simp add: pow2_def [of 4])
  ultimately have "\<not> pow2 1024 \<le> r" "\<not> r \<le> - pow2 1024" by linarith+
  then have "round64 x = Finite r"
    using False by (simp add: round64_def Let_def e_def q_def r_def)
  with err show ?thesis by blast
qed

lemma add64_error:
  assumes "\<bar>a + b\<bar> \<le> 8"
  shows "\<exists>y. add64 (Finite a) (Finite b) = Finite y \<and> \<bar>y - (a + b)\<bar> \<le> 1 / 2 ^ 50"
  using round64_error [OF assms] by simp

lemma sub64_error:
  assumes "\<bar>a - b\<bar> \<le> 8"
  shows "\<exists>y. sub64 (Finite a) (Finite b) = Finite y \<and> \<bar>y - (a - b)\<bar> \<le> 1 / 2 ^ 50"
  using round64_error [of "a - b"] assms by (simp add: sub64_def)

lemma div64_4_error:
  assumes "\<bar>a\<bar> \<le> 8"
  shows "\<exists>y. div64 (Finite a) (Finite 4) = Finite y \<and> \<bar>y - a / 4\<bar> \<le> 1 / 2 ^ 50"
  using round64_error [of "a / 4"] assms by simp

lemma foreground_binary64_range:
  assumes "foreground_pixel_analysis binary64 img = Inr f"
  shows "\<exists>q. f = Finite q \<and> - (1 / 2 ^ 50) \<le> q \<and> q \<le> 1 + 1 / 2 ^ 50"
proof -
  let ?al = "map (\<lambda>p. p ! 3) (pixels img)"
  let ?x = "of_nat (length (filter (\<lambda>a. a \<noteq> 0) ?al)) / of_nat (length ?al) :: rat"
  from assms have f: "f = round64 ?x" and n: "0 < length ?al"
    by (auto simp: foreground_pixel_analysis_def binary64_def Let_def split: if_splits)
  have "length (filter (\<lambda>a. a \<noteq> 0) ?al) \<le> length ?al"
    by (rule length_filter_le)
  with n have x: "0 \<le> ?x" "?x \<le> 1"
    by (simp_all add: divide_le_eq_1)
  then have "\<bar>?x\<bar> \<le> 8" by linarith
  from round64_error [OF this] obtain y where "round64 ?x = Finite y" "\<bar>y - ?x\<bar> \<le> 1 / 2 ^ 50"
    by blast
  with x have "- (1 / 2 ^ 50) \<le> y" "y \<le> 1 + 1 / 2 ^ 50"
    by linarith+
  with f \<open>round64 ?x = Finite y\<close> show ?thesis by simp
qed

text \<open>
  In double precision, too, identical candidates do not tie: rounding moves each of
  the two scores by less than \<open>2 ^ (- 47)\<close>, and they are about \<open>1/2\<close> apart.
\<close>

lemma identical_candidates_binary64:
  assumes "compare_images E c c = Inr (Finite 1)"
    and "edge_similarity E c c = Inr (Finite 1)"
    and "histogram_difference E c c = Inr (Finite 1)"
    and "foreground_pixel_analysis binary64 c = Inr f"
    and "needs_background_removal E path = Inr g"
    and "\<not> (g \<and> less64 f thr)"
  shows "decide_best_method binary64 E c c orig path thr = Inr (c, ''U-2-Net'')"
proof -
  let ?h = "1 / 2 ^ 50 :: rat"
  have h: "0 \<le> ?h" "?h \<le> 1 / 100" by simp_all
  from foreground_binary64_range [OF assms(4)] obtain q
    where f: "f = Finite q" and q: "- ?h \<le> q" "q \<le> 1 + ?h" by blast
  \<comment> \<open>\<^verbatim>\<open>u2net_score\<close>\<close>
  from q h have "\<bar>1 + q\<bar> \<le> 8" by linarith
  from add64_error [OF this] obtain y1
    where y1: "add64 (Finite 1) (Finite q) = Finite y1" "\<bar>y1 - (1 + q)\<bar> \<le> ?h" by blast
  from y1(2) q h have "\<bar>y1 + 1\<bar> \<le> 8" by linarith
  from add64_error [OF this] obtain y2
    where y2: "add64 (Finite y1) (Finite 1) = Finite y2" "\<bar>y2 - (y1 + 1)\<bar> \<le> ?h" by blast
  from y1(2) y2(2) q h have "\<bar>y2 + 1\<bar> \<le> 8" by linarith
  from add64_error [OF this] obtain y3
    where y3: "add64 (Finite y2) (Finite 1) = Finite y3" "\<bar>y3 - (y2 + 1)\<bar> \<le> ?h" by blast
  from y1(2) y2(2) y3(2) q h have "\<bar>y3\<bar> \<le> 8" by linarith
  from div64_4_error [OF this] obtain u
    where u: "div64 (Finite y3) (Finite 4) = Finite u" "\<bar>u - y3 / 4\<bar> \<le> ?h" by blast
  have us: "u2net_score binary64 (Finite 1) f (Finite 1) (Finite 1) = Finite u"
    by (simp add: u2net_score_def binary64_def round64_literals f y1 y2 y3 u
        del: add64.simps div64.simps)
  \<comment> \<open>\<^verbatim>\<open>rembg_score\<close>\<close>
  have z0: "sub64 (Finite 1) (Finite 1) = Finite 0"
    by (simp add: sub64_def round64_def)
  from q h have "\<bar>1 - q\<bar> \<le> 8" by linarith
  from sub64_error [OF this] obtain z1
    where z1: "sub64 (Finite 1) (Finite q) = Finite z1" "\<bar>z1 - (1 - q)\<bar> \<le> ?h" by blast
  from z1(2) q h have "\<bar>0 + z1\<bar> \<le> 8" by linarith
  from add64_error [OF this] obtain w1
    where w1: "add64 (Finite 0) (Finite z1) = Finite w1" "\<bar>w1 - (0 + z1)\<bar> \<le> ?h" by blast
  from z1(2) w1(2) q h have "\<bar>w1 + 0\<bar> \<le> 8" by linarith
  from add64_error [OF this] obtain w2
    where w2: "add64 (Finite w1) (Finite 0) = Finite w2" "\<bar>w2 - (w1 + 0)\<bar> \<le> ?h" by blast
  from z1(2) w1(2) w2(2) q h have "\<bar>w2 + 0\<bar> \<le> 8" by linarith
  from add64_error [OF this] obtain w3
    where w3: "add64 (Finite w2) (Finite 0) = Finite w3" "\<bar>w3 - (w2 + 0)\<bar> \<le> ?h" by blast
  from z1(2) w1(2) w2(2) w3(2) q h have "\<bar>w3\<bar> \<le> 8" by linarith
  from div64_4_error [OF this] obtain r
    where r: "div64 (Finite w3) (Finite 4) = Finite r" "\<bar>r - w3 / 4\<bar> \<le> ?h" by blast
  have rs: "rembg_score binary64 (Finite 1) f (Finite 1) (Finite 1) = Finite r"
    by (simp add: rembg_score_def binary64_def round64_literals f z0 z1 w1 w2 w3 r
        del: add64.simps div64.simps)
  \<comment> \<open>the comparison\<close>
  from y1(2) y2(2) y3(2) u(2) z1(2) w1(2) w2(2) w3(2) r(2) q h have "r < u"
    by linarith
  then have "fless binary64 (rembg_score binary64 (Finite 1) f (Finite 1) (Finite 1))
               (u2net_score binary64 (Finite 1) f (Finite 1) (Finite 1))"
    by (simp add: us rs) (simp add: binary64_def)
  with decide_best_method_eval [OF assms(1) assms(4) assms(2) assms(3) assms(5)] assms(6)
  show ?thesis by (auto simp: binary64_def)
qed

section \<open>Single precision and the threshold\<close>

lemmas round32_eval = round32_def floor_log2_def round_half_even_def pow2_def
  bit_length_0 bit_length_pos floor_rat_numeral floor_rat_minus_numeral Let_def

lemma round32_literals:
  "round32 (4 / 10) = Finite (13421773 / 33554432)"
  "round32 (1 / 8) = Finite (1 / 8)"
  "round32 (1 / 2) = Finite (1 / 2)"
  by (simp_all add: round32_eval)

lemma mean32_examples:
  "mean32 [[1 / 8]] = Finite (1 / 8)"
  "mean32 [[1 / 2]] = Finite (1 / 2)"
  by (simp_all add: mean32_def add32_def round32_literals round64_eval)

lemma sum32_example_map:
  "foldl add32 (Finite 0) (concat example_map) = Finite (7549747 / 2097152)"
  by (simp add: example_map_def add32_def round32_eval)

lemma mean32_example_map: "mean32 example_map = Finite (3355443 / 8388608)"
proof -
  have r64: "round64 (7549747 / 18874368) = Finite (3602879606452679 / 9007199254740992)"
    by (simp add: round64_eval)
  have r32: "round32 (3602879606452679 / 9007199254740992) = Finite (3355443 / 8388608)"
    by (simp add: round32_eval)
  have len: "length (concat example_map) = 9"
    by (simp add: example_map_def)
  have ne: "concat example_map \<noteq> []"
    by (simp add: example_map_def)
  show ?thesis
    unfolding mean32_def Let_def sum32_example_map len
    using ne by (simp add: r64 r32)
qed

lemma needs_background_removal_example:
  "needs_background_removal (example_libs s e h [[1 / 8]]) p = Inr True"
  "needs_background_removal (example_libs s e h [[1 / 2]]) p = Inr False"
  "needs_background_removal (example_libs s e h example_map) p = Inr True"
  unfolding needs_background_removal_def Let_def round64_literals
  by (simp_all add: example_libs_def bind_exn_def mean32_examples mean32_example_map)



section \<open>Properties of the directory driver\<close>

lemma lower_char_dot: "lower_char c = CHR ''.'' \<longleftrightarrow> c = CHR ''.''"
  by (simp add: lower_char_def split: option.splits if_splits)

lemma endswith_iff: "endswith s suffix \<longleftrightarrow> (\<exists>b. s = b @ suffix)"
proof
  assume "endswith s suffix"
  then have "s = take (length s - length suffix) s @ suffix"
    by (metis append_take_drop_id endswith_def)
  then show "\<exists>b. s = b @ suffix" ..
next
  assume "\<exists>b. s = b @ suffix"
  then show "endswith s suffix" by (auto simp: endswith_def)
qed

lemma is_image_name_iff:
  "is_image_name n \<longleftrightarrow>
     (\<exists>base ext. n = base @ ext \<and> lower ext \<in> {''.jpg'', ''.jpeg'', ''.png''})"
proof -
  have "endswith (lower n) e \<longleftrightarrow> (\<exists>base ext. n = base @ ext \<and> lower ext = e)" for e
    unfolding endswith_iff lower_def
    by (metis map_append map_eq_append_conv)
  then show ?thesis
    by (auto simp: is_image_name_def image_extensions_def)
qed

lemma process_files_ok:
  assumes "\<forall>k < length names. is_image_name (names ! k) \<longrightarrow>
             (\<exists>img. process_image A E (path_join input_dir (names ! k)) = Inr img \<and>
                save_error E img (path_join output_dir (fst (splitext (names ! k)) @ ''.png''))
                  (fs\<lparr>files := files fs @
                     map (\<lambda>n. (path_join output_dir (fst (splitext n) @ ''.png''),
                                projr (process_image A E (path_join input_dir n))))
                       (filter is_image_name (take k names))\<rparr>) = None)"
  shows "process_files A E input_dir output_dir names fs =
           (Inr (), fs\<lparr>files := files fs @
              map (\<lambda>n. (path_join output_dir (fst (splitext n) @ ''.png''),
                         projr (process_image A E (path_join input_dir n))))
                (filter is_image_name names)\<rparr>)"
  using assms
proof (induction names arbitrary: fs)
  case Nil
  then show ?case by simp
next
  case (Cons n names)
  let ?out = "\<lambda>n. path_join output_dir (fst (splitext n) @ ''.png'')"
  let ?W = "\<lambda>ns. map (\<lambda>n. (?out n, projr (process_image A E (path_join input_dir n))))
                    (filter is_image_name ns)"
  from Cons.prems have first: "is_image_name n \<longrightarrow>
      (\<exists>img. process_image A E (path_join input_dir n) = Inr img \<and>
         save_error E img (?out n) fs = None)"
    and later: "\<forall>k < length names. is_image_name (names ! k) \<longrightarrow>
      (\<exists>img. process_image A E (path_join input_dir (names ! k)) = Inr img \<and>
         save_error E img (?out (names ! k))
           (fs\<lparr>files := files fs @ ?W (n # take k names)\<rparr>) = None)"
    by (simp_all add: All_less_Suc2)
  show ?case
  proof (cases "is_image_name n")
    case True
    with first obtain img where img: "process_image A E (path_join input_dir n) = Inr img"
      and save: "save_error E img (?out n) fs = None"
      by blast
    let ?fs1 = "fs\<lparr>files := files fs @ [(?out n, img)]\<rparr>"
    from later True img have "\<forall>k < length names. is_image_name (names ! k) \<longrightarrow>
      (\<exists>img. process_image A E (path_join input_dir (names ! k)) = Inr img \<and>
         save_error E img (?out (names ! k))
           (?fs1\<lparr>files := files ?fs1 @ ?W (take k names)\<rparr>) = None)"
      by simp
    from Cons.IH [OF this] True img save show ?thesis
      by (simp add: process_and_save_def image_save_def Let_def)
  next
    case False
    with later have "\<forall>k < length names. is_image_name (names ! k) \<longrightarrow>
      (\<exists>img. process_image A E (path_join input_dir (names ! k)) = Inr img \<and>
         save_error E img (?out (names ! k))
           (fs\<lparr>files := files fs @ ?W (take k names)\<rparr>) = None)"
      by simp
    from Cons.IH [OF this] False show ?thesis by simp
  qed
qed

lemma process_files_append:
  assumes "process_files A E input_dir output_dir pre fs = (Inr (), fs')"
  shows "process_files A E input_dir output_dir (pre @ post) fs =
           process_files A E input_dir output_dir post fs'"
  using assms
proof (induction pre arbitrary: fs)
  case Nil
  then show ?case by simp
next
  case (Cons n pre)
  then show ?case
    by (auto simp: Let_def split: if_splits prod.splits sum.splits)
qed

lemma rfind_absent: "c \<notin> set s \<Longrightarrow> rfind c s = - 1"
proof -
  assume "c \<notin> set s"
  then have "\<forall>i \<in> set (rev [0..<length s]). s ! i \<noteq> c"
    by (metis atLeastLessThan_iff nth_mem set_rev set_upt)
  then have "filter (\<lambda>i. s ! i = c) (rev [0..<length s]) = []"
    unfolding filter_empty_conv by blast
  then show ?thesis by (simp add: rfind_def)
qed

lemma rfind_last:
  assumes "c \<notin> set r"
  shows "rfind c (b @ c # r) = int (length b)"
proof -
  let ?s = "b @ c # r"
  let ?n = "length b"
  let ?m = "?n + Suc (length r)"
  have len: "length ?s = ?m" by simp
  have "[0..<?m] = [0..<?n] @ [?n..<?m]"
    by (rule upt_add_eq_append) simp
  also have "[?n..<?m] = ?n # [Suc ?n..<?m]"
    by (rule upt_conv_Cons) simp
  finally have upt: "[0..<?m] = [0..<?n] @ ?n # [Suc ?n..<?m]" .
  have tail: "?s ! i \<noteq> c" if "i \<in> set [Suc ?n..<?m]" for i
  proof -
    define k where "k = i - Suc ?n"
    from that have k: "i = ?n + Suc k" "k < length r"
      by (auto simp: k_def)
    have "?s ! i = r ! k" unfolding k(1) by (simp add: nth_append)
    with k(2) assms show ?thesis by (metis nth_mem)
  qed
  have "filter (\<lambda>i. ?s ! i = c) [Suc ?n..<?m] = []"
    unfolding filter_empty_conv using tail by blast
  then have "filter (\<lambda>i. ?s ! i = c) (rev [0..<?m]) =
               ?n # rev (filter (\<lambda>i. ?s ! i = c) [0..<?n])"
    unfolding upt by (simp add: rev_filter [symmetric])
  then show ?thesis unfolding rfind_def len by simp
qed

lemma lower_char_dot_sym: "CHR ''.'' = lower_char c \<longleftrightarrow> c = CHR ''.''"
  using lower_char_dot [of c] by auto

lemma lower_dot_mem: "CHR ''.'' \<in> set (lower s) \<longleftrightarrow> CHR ''.'' \<in> set s"
  by (induction s) (auto simp: lower_def lower_char_dot_sym)

lemma extension_shape:
  assumes "lower ext \<in> set image_extensions"
  shows "\<exists>r. ext = CHR ''.'' # r \<and> CHR ''.'' \<notin> set r"
proof -
  from assms obtain e where e: "lower ext = CHR ''.'' # e" "CHR ''.'' \<notin> set e"
    by (auto simp: image_extensions_def)
  from e(1) obtain d r where ext: "ext = d # r" "lower_char d = CHR ''.''" "lower r = e"
    by (auto simp: lower_def map_eq_Cons_conv)
  with e(2) lower_dot_mem [of r] show ?thesis
    by (auto simp: lower_char_dot)
qed

lemma splitext_image_name:
  assumes "lower ext \<in> set image_extensions"
    and "CHR ''/'' \<notin> set (base @ ext)"
    and "\<exists>c \<in> set base. c \<noteq> CHR ''.''"
  shows "splitext (base @ ext) = (base, ext)"
proof -
  from assms(1) obtain r where r: "ext = CHR ''.'' # r" "CHR ''.'' \<notin> set r"
    using extension_shape by blast
  have sep: "rfind CHR ''/'' (base @ ext) = - 1"
    using assms(2) by (rule rfind_absent)
  have dot: "rfind CHR ''.'' (base @ ext) = int (length base)"
    unfolding r(1) using r(2) by (rule rfind_last)
  from assms(3) have "list_ex (\<lambda>c. c \<noteq> CHR ''.'') base"
    by (simp add: list_ex_iff)
  then show ?thesis
    by (simp add: splitext_def sep dot)
qed

text \<open>The loop stops at the first selected file whose processing or saving raises.\<close>

lemma process_files_stops:
  assumes "\<forall>k < length pre. is_image_name (pre ! k) \<longrightarrow>
             (\<exists>img. process_image A E (path_join input_dir (pre ! k)) = Inr img \<and>
                save_error E img (path_join output_dir (fst (splitext (pre ! k)) @ ''.png''))
                  (fs\<lparr>files := files fs @
                     map (\<lambda>n. (path_join output_dir (fst (splitext n) @ ''.png''),
                                projr (process_image A E (path_join input_dir n))))
                       (filter is_image_name (take k pre))\<rparr>) = None)"
    and "is_image_name n"
    and "process_and_save A E (path_join input_dir n)
           (path_join output_dir (fst (splitext n) @ ''.png''))
           (fs\<lparr>files := files fs @
              map (\<lambda>m. (path_join output_dir (fst (splitext m) @ ''.png''),
                         projr (process_image A E (path_join input_dir m))))
                (filter is_image_name pre)\<rparr>) = (Inl e, fs_fail)"
  shows "process_files A E input_dir output_dir (pre @ n # post) fs = (Inl e, fs_fail)"
proof -
  have "process_files A E input_dir output_dir (pre @ n # post) fs =
          process_files A E input_dir output_dir (n # post)
            (fs\<lparr>files := files fs @
              map (\<lambda>m. (path_join output_dir (fst (splitext m) @ ''.png''),
                         projr (process_image A E (path_join input_dir m))))
                (filter is_image_name pre)\<rparr>)"
    by (rule process_files_append) (rule process_files_ok [OF assms(1)])
  also have "\<dots> = (Inl e, fs_fail)"
    using assms(2,3) by (simp add: Let_def)
  finally show ?thesis .
qed

text \<open>With the output directory in place the driver is the loop over the listing.\<close>

lemma process_directory_prepared:
  assumes "path_exists fs output_dir \<or> makedirs_error E output_dir fs = None"
    and "listdir E input_dir = Inr names"
  shows "process_directory A E input_dir output_dir fs =
           process_files A E input_dir output_dir names
             (if path_exists fs output_dir then fs else fs\<lparr>dirs := dirs fs @ [output_dir]\<rparr>)"
  using assms by (auto simp: process_directory_def makedirs_def)

text \<open>If the output directory cannot be created, no file is listed or processed.\<close>

lemma process_directory_makedirs_fails:
  assumes "\<not> path_exists fs output_dir"
    and "makedirs_error E output_dir fs = Some (e, fs')"
  shows "process_directory A E input_dir output_dir fs = (Inl e, fs')"
  using assms by (simp add: process_directory_def makedirs_def)

text \<open>The example libraries at work.\<close>

lemma process_image_example:
  "process_image exact (example_libs (1 / 4) (1 / 4) (1 / 4) [[1 / 2]]) p =
     (if endswith p ''broken.jpg'' then Inl (LibraryError ''cv2.error'') else Inr example_opaque)"
proof -
  let ?E = "example_libs (1 / 4) (1 / 4) (1 / 4) [[1 / 2]] :: real libs"
  have d: "decide_best_method exact ?E example_sparse example_opaque example_original p thr =
             Inr (example_opaque, ''rembg'')" for thr
    by (simp add: decide_best_method_eval [where s = "1 / 4" and e = "1 / 4" and h = "1 / 4"
          and f = "1 / 10" and g = False]
        example_libs_scores foreground_examples needs_background_removal_example fless_exact
        u2net_score_exact rembg_score_exact)
  have w: "replace_with_white_background example_opaque = example_opaque"
    by (simp add: replace_with_white_background_def example_opaque_def whiten_def)
  have io: "imread_rgb ?E p =
              (if endswith p ''broken.jpg'' then Inl (LibraryError ''cv2.error'')
               else Inr example_original)"
    "remove_background_u2net ?E p = Inr example_sparse"
    "remove_background_rembg ?E p = Inr example_opaque"
    by (simp_all add: example_libs_def)
  show ?thesis
    by (simp add: process_image_def io bind_exn_def d w)
qed

lemma example_errors:
  "makedirs_error (example_libs s e h sal) p fs =
     (if p = [] then Some (LibraryError ''FileNotFoundError'', fs) else None)"
  "save_error (example_libs s e h sal) img p fs =
     (if endswith p ''locked.png'' then Some (LibraryError ''PermissionError'', fs) else None)"
  by (simp_all add: example_libs_def)

lemma process_directory_example_no_directory:
  "process_directory exact (example_libs (1 / 4) (1 / 4) (1 / 4) [[1 / 2]]) ''in'' []
     \<lparr>dirs = [], files = []\<rparr> =
   (Inl (LibraryError ''FileNotFoundError''), \<lparr>dirs = [], files = []\<rparr>)"
  by (rule process_directory_makedirs_fails) (simp_all add: path_exists_def example_errors)

lemma example_names:
  "is_image_name ''a.JPG''" "\<not> is_image_name ''notes.txt''" "is_image_name ''b.png''"
  "is_image_name ''broken.jpg''" "is_image_name ''locked.png''"
  "splitext ''a.JPG'' = (''a'', ''.JPG'')" "splitext ''b.png'' = (''b'', ''.png'')"
  "splitext ''broken.jpg'' = (''broken'', ''.jpg'')"
  "splitext ''locked.png'' = (''locked'', ''.png'')"
  "path_join ''out'' ''a.png'' = ''out/a.png''" "path_join ''out'' ''b.png'' = ''out/b.png''"
  "path_join ''out'' ''broken.png'' = ''out/broken.png''"
  "path_join ''out'' ''locked.png'' = ''out/locked.png''"
  "endswith (path_join ''in2'' ''broken.jpg'') ''broken.jpg''"
  "\<not> endswith (path_join ''in2'' ''a.JPG'') ''broken.jpg''"
  "\<not> endswith (path_join ''in2'' ''b.png'') ''broken.jpg''"
  "\<not> endswith (path_join ''in3'' ''a.JPG'') ''broken.jpg''"
  "\<not> endswith (path_join ''in3'' ''locked.png'') ''broken.jpg''"
  "\<not> endswith (path_join ''in3'' ''b.png'') ''broken.jpg''"
  "\<not> endswith (path_join ''in'' ''a.JPG'') ''broken.jpg''"
  "\<not> endswith (path_join ''in'' ''b.png'') ''broken.jpg''"
  "\<not> endswith ''out/a.png'' ''locked.png''" "\<not> endswith ''out/b.png'' ''locked.png''"
  "endswith ''out/locked.png'' ''locked.png''"
  by (simp_all add: is_image_name_def image_extensions_def endswith_def lower_def lower_char_def
      splitext_def rfind_def upt_rec path_join_def)

section \<open>The claims\<close>

text \<open>
  C1. In every arithmetic and for every threshold (the default is \<open>0.2\<close>): if the
  gate returns true for the path and the foreground score of the network output is
  below the threshold, \<^verbatim>\<open>decide_best_method\<close> returns the original image with the
  label of the original, \<^verbatim>\<open>"Original"\<close>, whatever the values of the three similarity
  scores are. The scores are computed before the check, so they are taken to have
  values.
\<close>

theorem decide_best_method_override:
  assumes "compare_images E u2 rb = Inr s"
    and "edge_similarity E u2 rb = Inr e"
    and "histogram_difference E u2 rb = Inr h"
    and "foreground_pixel_analysis A u2 = Inr f"
    and "needs_background_removal E path = Inr True"
    and "fless A f thr"
  shows "decide_best_method A E u2 rb orig path thr = Inr (orig, ''Original'')"
  using decide_best_method_eval [OF assms(1) assms(4) assms(2) assms(3) assms(5)] assms(6)
  by simp

theorem decide_best_method_override_witness:
  "decide_best_method exact (example_libs (9 / 10) (8 / 10) (7 / 10) [[1 / 8]])
     example_sparse example_opaque example_original ''in/a.JPG'' (2 / 10) =
   Inr (example_original, ''Original'')"
  by (rule decide_best_method_override [where s = "9 / 10" and e = "8 / 10" and h = "7 / 10"
        and f = "1 / 10"])
    (simp_all add: example_libs_scores foreground_examples needs_background_removal_example
      fless_exact)

text \<open>
  C2. When the four scores and the gate return and the override does not fire,
  \<^verbatim>\<open>decide_best_method\<close> returns the network output (labelled \<^verbatim>\<open>"U-2-Net"\<close>) exactly
  when \<^verbatim>\<open>u2net_score > rembg_score\<close>, and the output of rembg (labelled \<^verbatim>\<open>"rembg"\<close>)
  exactly when not, in every arithmetic. The two scores are the averages
  \<open>(s + f + e + h) / 4\<close> and \<open>((1 - s) + (1 - f) + (1 - e) + (1 - h)) / 4\<close>, and equal
  scores are not one greater than the other.
\<close>

theorem decide_best_method_scores:
  assumes "compare_images E u2 rb = Inr s"
    and "foreground_pixel_analysis A u2 = Inr f"
    and "edge_similarity E u2 rb = Inr e"
    and "histogram_difference E u2 rb = Inr h"
    and "needs_background_removal E path = Inr g"
    and "\<not> (g \<and> fless A f thr)"
  shows "decide_best_method A E u2 rb orig path thr =
           Inr (if fless A (rembg_score A s f e h) (u2net_score A s f e h)
                then (u2, ''U-2-Net'') else (rb, ''rembg'')) \<and>
         (decide_best_method A E u2 rb orig path thr = Inr (u2, ''U-2-Net'') \<longleftrightarrow>
            fless A (rembg_score A s f e h) (u2net_score A s f e h)) \<and>
         (decide_best_method A E u2 rb orig path thr = Inr (rb, ''rembg'') \<longleftrightarrow>
            \<not> fless A (rembg_score A s f e h) (u2net_score A s f e h)) \<and>
         (\<forall>x1 x2 x3 x4.
            u2net_score exact x1 x2 x3 x4 = (x1 + x2 + x3 + x4) / 4 \<and>
            rembg_score exact x1 x2 x3 x4 = ((1 - x1) + (1 - x2) + (1 - x3) + (1 - x4)) / 4 \<and>
            (u2net_score exact x1 x2 x3 x4 = rembg_score exact x1 x2 x3 x4 \<longrightarrow>
               \<not> fless exact (rembg_score exact x1 x2 x3 x4) (u2net_score exact x1 x2 x3 x4)))"
proof -
  have "decide_best_method A E u2 rb orig path thr =
           Inr (if fless A (rembg_score A s f e h) (u2net_score A s f e h)
                then (u2, ''U-2-Net'') else (rb, ''rembg''))"
    using decide_best_method_eval [OF assms(1-5)] assms(6) by auto
  then show ?thesis
    by (simp add: u2net_score_exact rembg_score_exact fless_exact)
qed

theorem decide_best_method_scores_witness:
  "decide_best_method exact (example_libs (1 / 2) (1 / 2) (1 / 2) [[1 / 8]])
     example_half example_opaque example_original ''in/a.JPG'' (2 / 10) =
   Inr (example_opaque, ''rembg'') \<and>
   decide_best_method exact (example_libs (1 / 2) (3 / 4) (1 / 2) [[1 / 8]])
     example_half example_opaque example_original ''in/a.JPG'' (2 / 10) =
   Inr (example_half, ''U-2-Net'')"
proof -
  have tie: "decide_best_method exact (example_libs (1 / 2) (1 / 2) (1 / 2) [[1 / 8]])
     example_half example_opaque example_original ''in/a.JPG'' (2 / 10) =
     Inr (example_opaque, ''rembg'')"
    using decide_best_method_scores [where A = exact
        and E = "example_libs (1 / 2) (1 / 2) (1 / 2) [[1 / 8]]"
        and ?u2.0 = example_half and rb = example_opaque and orig = example_original
        and path = "''in/a.JPG''" and thr = "2 / 10"
        and s = "1 / 2" and f = "1 / 2" and e = "1 / 2" and h = "1 / 2" and g = True]
    by (simp add: example_libs_scores foreground_examples needs_background_removal_example
        fless_exact u2net_score_exact rembg_score_exact)
  have win: "decide_best_method exact (example_libs (1 / 2) (3 / 4) (1 / 2) [[1 / 8]])
     example_half example_opaque example_original ''in/a.JPG'' (2 / 10) =
     Inr (example_half, ''U-2-Net'')"
    using decide_best_method_scores [where A = exact
        and E = "example_libs (1 / 2) (3 / 4) (1 / 2) [[1 / 8]]"
        and ?u2.0 = example_half and rb = example_opaque and orig = example_original
        and path = "''in/a.JPG''" and thr = "2 / 10"
        and s = "1 / 2" and f = "1 / 2" and e = "3 / 4" and h = "1 / 2" and g = True]
    by (simp add: example_libs_scores foreground_examples needs_background_removal_example
        fless_exact u2net_score_exact rembg_score_exact)
  from tie win show ?thesis by simp
qed

text \<open>
  C3 (as amended). For identical candidates, that is when the three similarity
  scores of an image with itself are 1, there is no tie. In exact arithmetic the
  foreground score \<open>f\<close> lies between 0 and 1, \<^verbatim>\<open>u2net_score\<close> is \<open>(3 + f) / 4\<close> and
  exceeds \<^verbatim>\<open>rembg_score\<close>, which is \<open>(1 - f) / 4\<close>. So, when the override does not
  fire, \<^verbatim>\<open>decide_best_method\<close> returns the candidate with the label \<^verbatim>\<open>"U-2-Net"\<close>, in
  exact arithmetic and in double precision alike.
\<close>

theorem decide_best_method_identical:
  "(compare_images E c c = Inr 1 \<and> edge_similarity E c c = Inr 1 \<and>
    histogram_difference E c c = Inr 1 \<and>
    foreground_pixel_analysis exact c = Inr f \<and>
    needs_background_removal E path = Inr g \<and> \<not> (g \<and> f < thr) \<longrightarrow>
      0 \<le> f \<and> f \<le> 1 \<and>
      u2net_score exact 1 f 1 1 = (3 + f) / 4 \<and>
      rembg_score exact 1 f 1 1 = (1 - f) / 4 \<and>
      rembg_score exact 1 f 1 1 < u2net_score exact 1 f 1 1 \<and>
      decide_best_method exact E c c orig path thr = Inr (c, ''U-2-Net'')) \<and>
   (compare_images D c c = Inr (Finite 1) \<and> edge_similarity D c c = Inr (Finite 1) \<and>
    histogram_difference D c c = Inr (Finite 1) \<and>
    foreground_pixel_analysis binary64 c = Inr d \<and>
    needs_background_removal D path = Inr g \<and> \<not> (g \<and> less64 d dthr) \<longrightarrow>
      decide_best_method binary64 D c c orig path dthr = Inr (c, ''U-2-Net''))"
proof (intro conjI impI)
  assume a: "compare_images E c c = Inr 1 \<and> edge_similarity E c c = Inr 1 \<and>
    histogram_difference E c c = Inr 1 \<and>
    foreground_pixel_analysis exact c = Inr f \<and>
    needs_background_removal E path = Inr g \<and> \<not> (g \<and> f < thr)"
  then have fg: "foreground_pixel_analysis exact c = Inr f" by simp
  then show "0 \<le> f" "f \<le> 1"
    using foreground_range by blast+
  then have less: "rembg_score exact 1 f 1 1 < u2net_score exact 1 f 1 1"
    by (simp add: u2net_score_exact rembg_score_exact)
  then show "rembg_score exact 1 f 1 1 < u2net_score exact 1 f 1 1" .
  show "u2net_score exact 1 f 1 1 = (3 + f) / 4" "rembg_score exact 1 f 1 1 = (1 - f) / 4"
    by (simp_all add: u2net_score_exact rembg_score_exact)
  from a less show "decide_best_method exact E c c orig path thr = Inr (c, ''U-2-Net'')"
    using decide_best_method_eval [of E c c 1 exact f 1 1 path g orig thr]
    by (auto simp: fless_exact)
next
  assume "compare_images D c c = Inr (Finite 1) \<and> edge_similarity D c c = Inr (Finite 1) \<and>
    histogram_difference D c c = Inr (Finite 1) \<and>
    foreground_pixel_analysis binary64 c = Inr d \<and>
    needs_background_removal D path = Inr g \<and> \<not> (g \<and> less64 d dthr)"
  then show "decide_best_method binary64 D c c orig path dthr = Inr (c, ''U-2-Net'')"
    by (intro identical_candidates_binary64 [where f = d and g = g]) simp_all
qed

theorem decide_best_method_identical_witness:
  "rembg_score exact 1 (1 / 10) 1 1 < u2net_score exact 1 (1 / 10) 1 1 \<and>
   decide_best_method exact (example_libs 1 1 1 [[1 / 2]])
     example_sparse example_sparse example_original ''in/a.JPG'' (2 / 10) =
   Inr (example_sparse, ''U-2-Net'') \<and>
   decide_best_method binary64 (example_libs (Finite 1) (Finite 1) (Finite 1) [[1 / 2]])
     example_sparse example_sparse example_original ''in/a.JPG'' (round64 (2 / 10)) =
   Inr (example_sparse, ''U-2-Net'')"
  using decide_best_method_identical [where E = "example_libs 1 1 1 [[1 / 2]]"
      and D = "example_libs (Finite 1) (Finite 1) (Finite 1) [[1 / 2]]"
      and c = example_sparse and f = "1 / 10" and path = "''in/a.JPG''" and g = False
      and thr = "2 / 10" and orig = example_original
      and d = "Finite (3602879701896397 / 36028797018963968)" and dthr = "round64 (2 / 10)"]
  by (simp add: example_libs_scores foreground_examples needs_background_removal_example
      foreground_binary64_sparse)

text \<open>
  The claimed tie does not occur: with all three similarity scores 1 and half of the
  pixels in the foreground the scores are \<open>7/8\<close> and \<open>1/8\<close>, and the result carries the
  label \<^verbatim>\<open>"U-2-Net"\<close>, not \<^verbatim>\<open>"rembg"\<close>; so it does in double precision.
\<close>

theorem decide_best_method_identical_counterexample:
  "compare_images (example_libs 1 1 1 [[1 / 2]]) example_half example_half = Inr (1 :: real) \<and>
   edge_similarity (example_libs 1 1 1 [[1 / 2]]) example_half example_half = Inr (1 :: real) \<and>
   histogram_difference (example_libs 1 1 1 [[1 / 2]]) example_half example_half
     = Inr (1 :: real) \<and>
   foreground_pixel_analysis exact example_half = Inr (1 / 2) \<and>
   u2net_score exact 1 (1 / 2) 1 1 = 7 / 8 \<and>
   rembg_score exact 1 (1 / 2) 1 1 = 1 / 8 \<and>
   u2net_score exact 1 (1 / 2) 1 1 \<noteq> rembg_score exact 1 (1 / 2) 1 1 \<and>
   decide_best_method exact (example_libs 1 1 1 [[1 / 2]])
     example_half example_half example_original ''in/a.JPG'' (2 / 10) =
   Inr (example_half, ''U-2-Net'') \<and>
   decide_best_method exact (example_libs 1 1 1 [[1 / 2]])
     example_half example_half example_original ''in/a.JPG'' (2 / 10) \<noteq>
   Inr (example_half, ''rembg'') \<and>
   decide_best_method binary64 (example_libs (Finite 1) (Finite 1) (Finite 1) [[1 / 2]])
     example_half example_half example_original ''in/a.JPG'' (round64 (2 / 10)) =
   Inr (example_half, ''U-2-Net'')"
proof -
  have "decide_best_method exact (example_libs 1 1 1 [[1 / 2]])
     example_half example_half example_original ''in/a.JPG'' (2 / 10) =
     Inr (example_half, ''U-2-Net'')"
    by (simp add: decide_best_method_eval [where s = 1 and e = 1 and h = 1
          and f = "1 / 2" and g = False]
        example_libs_scores foreground_examples needs_background_removal_example fless_exact
        u2net_score_exact rembg_score_exact)
  moreover have "decide_best_method binary64
     (example_libs (Finite 1) (Finite 1) (Finite 1) [[1 / 2]])
     example_half example_half example_original ''in/a.JPG'' (round64 (2 / 10)) =
     Inr (example_half, ''U-2-Net'')"
    by (rule identical_candidates_binary64 [where f = "Finite (1 / 2)" and g = False])
      (simp_all add: example_libs_scores foreground_binary64_half
        needs_background_removal_example)
  ultimately show ?thesis
    by (simp add: example_libs_scores foreground_examples u2net_score_exact rembg_score_exact)
qed



text \<open>
  C5. For an image with four channels, the output has the same shape; the pixel
  at every position \<open>(i, j)\<close> is opaque white if the input pixel there has alpha 0
  and is the input pixel, unchanged in all four channels, if its alpha is not 0
  (whatever that alpha is); hence the output has no fully transparent pixel.
  An image whose channel count is not 4 is returned as it is.
\<close>

theorem replace_with_white_background_spec:
  "(channels img = 4 \<longrightarrow>
      channels (replace_with_white_background img) = 4 \<and>
      length (rows (replace_with_white_background img)) = length (rows img) \<and>
      (\<forall>i < length (rows img).
         length (rows (replace_with_white_background img) ! i) = length (rows img ! i) \<and>
         (\<forall>j < length (rows img ! i).
            (rows img ! i ! j ! 3 = 0 \<longrightarrow>
               rows (replace_with_white_background img) ! i ! j = [255, 255, 255, 255]) \<and>
            (rows img ! i ! j ! 3 \<noteq> 0 \<longrightarrow>
               rows (replace_with_white_background img) ! i ! j = rows img ! i ! j))) \<and>
      transparent_count (replace_with_white_background img) = 0) \<and>
   (channels img \<noteq> 4 \<longrightarrow> replace_with_white_background img = img)"
proof -
  have "transparent_count (replace_with_white_background img) = 0" if "channels img = 4"
    using that
    by (simp add: transparent_count_def pixels_def replace_with_white_background_def
        concat_map_map filter_transparent_whiten)
  then show ?thesis
    by (simp add: replace_with_white_background_def whiten_def white_def)
qed

theorem replace_with_white_background_spec_witness:
  "rows (replace_with_white_background example_sparse) ! 0 ! 0 = [255, 255, 255, 255] \<and>
   rows (replace_with_white_background example_sparse) ! 1 ! 2 = [7, 8, 9, 128] \<and>
   transparent_count (replace_with_white_background example_sparse) = 0 \<and>
   replace_with_white_background example_original = example_original"
proof -
  have c: "channels example_sparse = 4" "channels example_original \<noteq> 4"
    by (simp_all add: example_sparse_def example_original_def)
  have r: "length (rows example_sparse) = 2" "length (rows example_sparse ! 0) = 5"
    "length (rows example_sparse ! 1) = 5"
    "rows example_sparse ! 0 ! 0 = [0, 0, 0, 0]" "rows example_sparse ! 1 ! 2 = [7, 8, 9, 128]"
    by (simp_all add: example_sparse_def)
  from replace_with_white_background_spec [of example_sparse] c(1)
  have s: "\<forall>i < length (rows example_sparse).
         length (rows (replace_with_white_background example_sparse) ! i) =
           length (rows example_sparse ! i) \<and>
         (\<forall>j < length (rows example_sparse ! i).
            (rows example_sparse ! i ! j ! 3 = 0 \<longrightarrow>
               rows (replace_with_white_background example_sparse) ! i ! j = [255, 255, 255, 255]) \<and>
            (rows example_sparse ! i ! j ! 3 \<noteq> 0 \<longrightarrow>
               rows (replace_with_white_background example_sparse) ! i ! j =
               rows example_sparse ! i ! j))"
    and t: "transparent_count (replace_with_white_background example_sparse) = 0"
    by blast+
  from s r have "rows (replace_with_white_background example_sparse) ! 0 ! 0 = [255, 255, 255, 255]"
    by (metis nth_Cons_0 nth_Cons_Suc numeral_3_eq_3 zero_less_numeral)
  moreover from s r have "rows (replace_with_white_background example_sparse) ! 1 ! 2 = [7, 8, 9, 128]"
    by simp
  moreover from replace_with_white_background_spec [of example_original] c(2)
  have "replace_with_white_background example_original = example_original"
    by blast
  ultimately show ?thesis using t by simp
qed

text \<open>
  C6. Applying \<^verbatim>\<open>replace_with_white_background\<close> to its own result changes
  nothing, for every image.
\<close>

theorem replace_with_white_background_idempotent:
  "replace_with_white_background (replace_with_white_background img) =
   replace_with_white_background img"
  by (simp add: replace_with_white_background_def whiten_idem)

text \<open>
  C7 (as amended). Nothing in the driver catches an exception. Let the output
  directory exist or be created, let the listing be returned, and let every selected
  file listed before the selected file \<open>n\<close> be processed and its result saved. If
  then the processing of \<open>n\<close> raises, or the saving of its result does,
  \<^verbatim>\<open>process_directory\<close> ends with that exception, whatever is listed after \<open>n\<close>: the
  outputs of the selected files before \<open>n\<close> have been written, nothing has been
  written for \<open>n\<close> if its processing raised (a save that raises leaves what the
  library leaves), and no file listed after \<open>n\<close> is processed. Here \<open>ready\<close> is the
  file system when the loop starts and \<open>before\<close> the one when it reaches \<open>n\<close>.
\<close>

theorem process_directory_stops:
  assumes "path_exists fs output_dir \<or> makedirs_error E output_dir fs = None"
    and "ready = (if path_exists fs output_dir then fs else fs\<lparr>dirs := dirs fs @ [output_dir]\<rparr>)"
    and "listdir E input_dir = Inr (pre @ n # post)"
    and "\<forall>k < length pre. is_image_name (pre ! k) \<longrightarrow>
           (\<exists>img. process_image A E (path_join input_dir (pre ! k)) = Inr img \<and>
              save_error E img (path_join output_dir (fst (splitext (pre ! k)) @ ''.png''))
                (ready\<lparr>files := files fs @
                   map (\<lambda>m. (path_join output_dir (fst (splitext m) @ ''.png''),
                              projr (process_image A E (path_join input_dir m))))
                     (filter is_image_name (take k pre))\<rparr>) = None)"
    and "is_image_name n"
    and "before =
           ready\<lparr>files := files fs @
             map (\<lambda>m. (path_join output_dir (fst (splitext m) @ ''.png''),
                        projr (process_image A E (path_join input_dir m))))
               (filter is_image_name pre)\<rparr>"
    and "process_image A E (path_join input_dir n) = Inl e \<and> fs_fail = before \<or>
         (\<exists>img. process_image A E (path_join input_dir n) = Inr img \<and>
            save_error E img (path_join output_dir (fst (splitext n) @ ''.png'')) before =
              Some (e, fs_fail))"
  shows "process_directory A E input_dir output_dir fs = (Inl e, fs_fail)"
proof -
  have same: "files fs = files ready"
    unfolding assms(2) by simp
  from assms(7) have fails: "process_and_save A E (path_join input_dir n)
      (path_join output_dir (fst (splitext n) @ ''.png'')) before = (Inl e, fs_fail)"
    by (auto simp: process_and_save_def image_save_def)
  have "process_directory A E input_dir output_dir fs =
          process_files A E input_dir output_dir (pre @ n # post) ready"
    unfolding assms(2) by (rule process_directory_prepared [OF assms(1) assms(3)])
  also have "\<dots> = (Inl e, fs_fail)"
    by (rule process_files_stops [OF assms(4) [unfolded same] assms(5)])
      (rule fails [unfolded assms(6) same])
  finally show ?thesis .
qed

theorem process_directory_stops_witness:
  "process_directory exact (example_libs (1 / 4) (1 / 4) (1 / 4) [[1 / 2]]) ''in2'' ''out''
     \<lparr>dirs = [], files = []\<rparr> =
   (Inl (LibraryError ''cv2.error''),
    \<lparr>dirs = [''out''], files = [(''out/a.png'', example_opaque)]\<rparr>) \<and>
   process_directory exact (example_libs (1 / 4) (1 / 4) (1 / 4) [[1 / 2]]) ''in3'' ''out''
     \<lparr>dirs = [], files = []\<rparr> =
   (Inl (LibraryError ''PermissionError''),
    \<lparr>dirs = [''out''], files = [(''out/a.png'', example_opaque)]\<rparr>)"
proof -
  let ?E = "example_libs (1 / 4) (1 / 4) (1 / 4) [[1 / 2]] :: real libs"
  let ?fs = "\<lparr>dirs = [], files = []\<rparr>"
  let ?ready = "\<lparr>dirs = [''out''], files = []\<rparr>"
  let ?before = "\<lparr>dirs = [''out''], files = [(''out/a.png'', example_opaque)]\<rparr>"
  have lst: "listdir ?E ''in2'' = Inr ([''a.JPG''] @ ''broken.jpg'' # [''b.png''])"
    "listdir ?E ''in3'' = Inr ([''a.JPG''] @ ''locked.png'' # [''b.png''])"
    by (simp_all add: example_libs_def)
  have dir: "path_exists ?fs ''out'' \<or> makedirs_error ?E ''out'' ?fs = None"
    by (simp add: example_errors)
  have read: "process_directory exact ?E ''in2'' ''out'' ?fs =
                (Inl (LibraryError ''cv2.error''), ?before)"
    by (rule process_directory_stops [OF dir _ lst(1), where ready = ?ready
          and before = ?before])
      (simp_all add: process_image_example example_names example_errors path_exists_def)
  have save: "process_directory exact ?E ''in3'' ''out'' ?fs =
                (Inl (LibraryError ''PermissionError''), ?before)"
    by (rule process_directory_stops [OF dir _ lst(2), where ready = ?ready
          and before = ?before])
      (simp_all add: process_image_example example_names example_errors path_exists_def)
  from read save show ?thesis by simp
qed

text \<open>
  One failing image does prevent later images from being processed: in a directory
  listing \<^verbatim>\<open>a.JPG\<close>, \<^verbatim>\<open>broken.jpg\<close>, \<^verbatim>\<open>b.png\<close>, the image \<^verbatim>\<open>b.png\<close> can be processed, but
  the driver ends with the exception of \<^verbatim>\<open>broken.jpg\<close> and has written the output
  of \<^verbatim>\<open>a.JPG\<close> only.
\<close>

theorem process_directory_continue_counterexample:
  "listdir (example_libs (1 / 4) (1 / 4) (1 / 4) [[1 / 2]] :: real libs) ''in2'' =
     Inr [''a.JPG'', ''broken.jpg'', ''b.png''] \<and>
   is_image_name ''b.png'' \<and>
   process_image exact (example_libs (1 / 4) (1 / 4) (1 / 4) [[1 / 2]]) (path_join ''in2'' ''b.png'')
     = Inr example_opaque \<and>
   process_directory exact (example_libs (1 / 4) (1 / 4) (1 / 4) [[1 / 2]]) ''in2'' ''out''
     \<lparr>dirs = [], files = []\<rparr> =
   (Inl (LibraryError ''cv2.error''),
    \<lparr>dirs = [''out''], files = [(''out/a.png'', example_opaque)]\<rparr>)"
proof -
  let ?E = "example_libs (1 / 4) (1 / 4) (1 / 4) [[1 / 2]] :: real libs"
  have lst: "listdir ?E ''in2'' = Inr [''a.JPG'', ''broken.jpg'', ''b.png'']"
    by (simp add: example_libs_def)
  have "process_files exact ?E ''in2'' ''out'' ([''a.JPG''] @ ''broken.jpg'' # [''b.png''])
          \<lparr>dirs = [''out''], files = []\<rparr> =
        (Inl (LibraryError ''cv2.error''),
         \<lparr>dirs = [''out''], files = [(''out/a.png'', example_opaque)]\<rparr>)"
    by (rule process_files_stops)
      (simp_all add: process_image_example example_names example_errors process_and_save_def)
  then have pf: "process_files exact ?E ''in2'' ''out'' [''a.JPG'', ''broken.jpg'', ''b.png'']
          \<lparr>dirs = [''out''], files = []\<rparr> =
        (Inl (LibraryError ''cv2.error''),
         \<lparr>dirs = [''out''], files = [(''out/a.png'', example_opaque)]\<rparr>)"
    by (simp del: process_files.simps)
  have "process_directory exact ?E ''in2'' ''out'' \<lparr>dirs = [], files = []\<rparr> =
          process_files exact ?E ''in2'' ''out'' [''a.JPG'', ''broken.jpg'', ''b.png'']
            \<lparr>dirs = [''out''], files = []\<rparr>"
    by (subst process_directory_prepared [OF _ lst])
      (simp_all add: example_errors path_exists_def del: process_files.simps)
  with pf have "process_directory exact ?E ''in2'' ''out'' \<lparr>dirs = [], files = []\<rparr> =
          (Inl (LibraryError ''cv2.error''),
           \<lparr>dirs = [''out''], files = [(''out/a.png'', example_opaque)]\<rparr>)"
    by (simp del: process_files.simps)
  with lst show ?thesis
    by (simp add: process_image_example example_names)
qed

text \<open>
  C8. When the output directory exists or is created, the listing is returned, and
  every selected file is processed and its result saved without an exception (in
  the file system that the files before it have left), the driver
  processes the listed files whose names, in lower case, end in \<^verbatim>\<open>.jpg\<close>, \<^verbatim>\<open>.jpeg\<close> or
  \<^verbatim>\<open>.png\<close>, in the order of the listing, and no other file; for each of them it writes
  the processed image to the output directory under the root of the name (what
  \<^verbatim>\<open>os.path.splitext\<close> leaves) followed by \<^verbatim>\<open>.png\<close>. A name is selected exactly when it
  is a base followed by an extension that is one of the three up to the case of its
  letters, and the root of such a name is that base whenever the name has no \<^verbatim>\<open>/\<close> and
  the base does not consist of dots only.
\<close>

theorem process_directory_outputs:
  assumes "path_exists fs output_dir \<or> makedirs_error E output_dir fs = None"
    and "listdir E input_dir = Inr names"
    and "\<forall>k < length names. is_image_name (names ! k) \<longrightarrow>
           (\<exists>img. process_image A E (path_join input_dir (names ! k)) = Inr img \<and>
              save_error E img (path_join output_dir (fst (splitext (names ! k)) @ ''.png''))
                ((if path_exists fs output_dir then fs
                  else fs\<lparr>dirs := dirs fs @ [output_dir]\<rparr>)
                   \<lparr>files := files fs @
                      map (\<lambda>n. (path_join output_dir (fst (splitext n) @ ''.png''),
                                 projr (process_image A E (path_join input_dir n))))
                        (filter is_image_name (take k names))\<rparr>) = None)"
  shows "process_directory A E input_dir output_dir fs =
           (Inr (),
            (if path_exists fs output_dir then fs else fs\<lparr>dirs := dirs fs @ [output_dir]\<rparr>)
              \<lparr>files := files fs @
                 map (\<lambda>n. (path_join output_dir (fst (splitext n) @ ''.png''),
                            projr (process_image A E (path_join input_dir n))))
                   (filter is_image_name names)\<rparr>) \<and>
         (\<forall>n. is_image_name n \<longleftrightarrow>
            (\<exists>base ext. n = base @ ext \<and> lower ext \<in> {''.jpg'', ''.jpeg'', ''.png''})) \<and>
         (\<forall>base ext.
            lower ext \<in> {''.jpg'', ''.jpeg'', ''.png''} \<and> CHR ''/'' \<notin> set (base @ ext) \<and>
            (\<exists>c \<in> set base. c \<noteq> CHR ''.'') \<longrightarrow>
            splitext (base @ ext) = (base, ext))"
proof -
  define ready where
    "ready = (if path_exists fs output_dir then fs else fs\<lparr>dirs := dirs fs @ [output_dir]\<rparr>)"
  have same: "files fs = files ready"
    unfolding ready_def by simp
  have "process_directory A E input_dir output_dir fs =
          process_files A E input_dir output_dir names ready"
    unfolding ready_def by (rule process_directory_prepared [OF assms(1) assms(2)])
  also have "\<dots> =
      (Inr (), ready\<lparr>files := files ready @
         map (\<lambda>n. (path_join output_dir (fst (splitext n) @ ''.png''),
                    projr (process_image A E (path_join input_dir n))))
           (filter is_image_name names)\<rparr>)"
    by (rule process_files_ok) (rule assms(3) [folded ready_def, unfolded same])
  finally have "process_directory A E input_dir output_dir fs =
           (Inr (),
            (if path_exists fs output_dir then fs else fs\<lparr>dirs := dirs fs @ [output_dir]\<rparr>)
              \<lparr>files := files fs @
                 map (\<lambda>n. (path_join output_dir (fst (splitext n) @ ''.png''),
                            projr (process_image A E (path_join input_dir n))))
                   (filter is_image_name names)\<rparr>)"
    unfolding same [symmetric] unfolding ready_def .
  moreover have "splitext (base @ ext) = (base, ext)"
    if "lower ext \<in> {''.jpg'', ''.jpeg'', ''.png''}" "CHR ''/'' \<notin> set (base @ ext)"
      "\<exists>c \<in> set base. c \<noteq> CHR ''.''" for base ext
    using that by (intro splitext_image_name) (simp_all add: image_extensions_def)
  ultimately show ?thesis
    using is_image_name_iff by blast
qed

theorem process_directory_outputs_witness:
  "process_directory exact (example_libs (1 / 4) (1 / 4) (1 / 4) [[1 / 2]]) ''in'' ''out''
     \<lparr>dirs = [], files = []\<rparr> =
   (Inr (),
    \<lparr>dirs = [''out''],
     files = [(''out/a.png'', example_opaque), (''out/b.png'', example_opaque)]\<rparr>)"
  using process_directory_outputs [where A = exact
      and E = "example_libs (1 / 4) (1 / 4) (1 / 4) [[1 / 2]]"
      and input_dir = "''in''" and output_dir = "''out''"
      and names = "[''a.JPG'', ''notes.txt'', ''b.png'']"
      and fs = "\<lparr>dirs = [], files = []\<rparr>"]
  by (simp add: process_image_example example_names example_errors path_exists_def
      All_less_Suc2)
    (simp add: example_libs_def)

text \<open>
  C9 (as amended). In exact arithmetic the two scores add up to 1; hence, when the
  four scores and the gate return and the override does not fire, the network
  output is returned exactly when \<^verbatim>\<open>u2net_score\<close> is greater than \<open>1/2\<close> and the output
  of rembg exactly when it is at most \<open>1/2\<close>.
\<close>

theorem scores_sum_exact:
  assumes "compare_images E u2 rb = Inr s"
    and "foreground_pixel_analysis exact u2 = Inr f"
    and "edge_similarity E u2 rb = Inr e"
    and "histogram_difference E u2 rb = Inr h"
    and "needs_background_removal E path = Inr g"
    and "\<not> (g \<and> f < thr)"
  shows "u2net_score exact s f e h + rembg_score exact s f e h = 1 \<and>
         (decide_best_method exact E u2 rb orig path thr = Inr (u2, ''U-2-Net'') \<longleftrightarrow>
            1 / 2 < u2net_score exact s f e h) \<and>
         (decide_best_method exact E u2 rb orig path thr = Inr (rb, ''rembg'') \<longleftrightarrow>
            u2net_score exact s f e h \<le> 1 / 2)"
proof -
  have sum: "u2net_score exact s f e h + rembg_score exact s f e h = 1"
    by (simp add: u2net_score_exact rembg_score_exact field_simps)
  then have half: "rembg_score exact s f e h < u2net_score exact s f e h \<longleftrightarrow>
                     1 / 2 < u2net_score exact s f e h"
    by linarith
  have "decide_best_method exact E u2 rb orig path thr =
          Inr (if rembg_score exact s f e h < u2net_score exact s f e h
               then (u2, ''U-2-Net'') else (rb, ''rembg''))"
    using decide_best_method_eval [OF assms(1-5)] assms(6) by (auto simp: fless_exact)
  with sum half show ?thesis by auto
qed

theorem scores_sum_exact_witness:
  "u2net_score exact (3 / 10) 1 (4 / 10) (3 / 10) + rembg_score exact (3 / 10) 1 (4 / 10) (3 / 10)
     = 1 \<and>
   decide_best_method exact (example_libs (3 / 10) (4 / 10) (3 / 10) [[1 / 2]])
     example_opaque example_half example_original ''in/a.JPG'' (2 / 10) =
   Inr (example_half, ''rembg'')"
  using scores_sum_exact [where E = "example_libs (3 / 10) (4 / 10) (3 / 10) [[1 / 2]]"
      and ?u2.0 = example_opaque and rb = example_half and orig = example_original
      and path = "''in/a.JPG''" and thr = "2 / 10"
      and s = "3 / 10" and f = 1 and e = "4 / 10" and h = "3 / 10" and g = False]
  by (simp add: example_libs_scores foreground_examples needs_background_removal_example
      u2net_score_exact)

text \<open>
  In double precision the claim fails. For the scores \<^verbatim>\<open>0.3\<close>, \<^verbatim>\<open>1.0\<close>, \<^verbatim>\<open>0.4\<close> and
  \<^verbatim>\<open>0.3\<close> the sum of the four is rounded to 2 and \<^verbatim>\<open>u2net_score\<close> is exactly \<open>1/2\<close>,
  which is not greater than \<open>1/2\<close>, while \<^verbatim>\<open>rembg_score\<close> comes out one unit in the last
  place below \<open>1/2\<close>: the network output is returned. And for the scores \<^verbatim>\<open>0.3\<close>,
  \<^verbatim>\<open>1.0\<close>, \<^verbatim>\<open>1.0\<close> and \<^verbatim>\<open>0.3\<close> the two composite scores add up to
  \<^verbatim>\<open>0.9999999999999999\<close>, not to 1.
\<close>

theorem scores_half_counterexample:
  "foreground_pixel_analysis binary64 example_opaque = Inr (Finite 1) \<and>
   u2net_score binary64 (round64 (3 / 10)) (Finite 1) (round64 (4 / 10)) (round64 (3 / 10)) =
     Finite (1 / 2) \<and>
   rembg_score binary64 (round64 (3 / 10)) (Finite 1) (round64 (4 / 10)) (round64 (3 / 10)) =
     Finite (9007199254740991 / 18014398509481984) \<and>
   \<not> fless binary64 (flit binary64 (1 / 2))
       (u2net_score binary64 (round64 (3 / 10)) (Finite 1) (round64 (4 / 10)) (round64 (3 / 10))) \<and>
   decide_best_method binary64
     (example_libs (round64 (3 / 10)) (round64 (4 / 10)) (round64 (3 / 10)) [[1 / 2]])
     example_opaque example_half example_original ''in/a.JPG'' (flit binary64 (2 / 10)) =
   Inr (example_opaque, ''U-2-Net'') \<and>
   fadd binary64
     (u2net_score binary64 (round64 (3 / 10)) (Finite 1) (Finite 1) (round64 (3 / 10)))
     (rembg_score binary64 (round64 (3 / 10)) (Finite 1) (Finite 1) (round64 (3 / 10))) =
   Finite (9007199254740991 / 9007199254740992) \<and>
   Finite (9007199254740991 / 9007199254740992) \<noteq> flit binary64 1"
proof -
  let ?E = "example_libs (round64 (3 / 10)) (round64 (4 / 10)) (round64 (3 / 10)) [[1 / 2]]"
  let ?u = "u2net_score binary64 (round64 (3 / 10)) (Finite 1) (round64 (4 / 10))
              (round64 (3 / 10))"
  let ?r = "rembg_score binary64 (round64 (3 / 10)) (Finite 1) (round64 (4 / 10))
              (round64 (3 / 10))"
  have gate: "needs_background_removal ?E ''in/a.JPG'' = Inr False"
    by (simp add: needs_background_removal_example)
  have greater: "fless binary64 ?r ?u"
    unfolding u2net_score_binary64_example rembg_score_binary64_example
    by (simp add: binary64_def)
  have not_over_half: "\<not> fless binary64 (flit binary64 (1 / 2)) ?u"
    unfolding u2net_score_binary64_example
    by (simp add: binary64_def round64_literals)
  have decision: "decide_best_method binary64 ?E example_opaque example_half example_original
          ''in/a.JPG'' (flit binary64 (2 / 10)) = Inr (example_opaque, ''U-2-Net'')"
    unfolding decide_best_method_eval [OF example_libs_scores(1) foreground_binary64_example
        example_libs_scores(2) example_libs_scores(3) gate]
    using greater by simp
  have sum: "fadd binary64
     (u2net_score binary64 (round64 (3 / 10)) (Finite 1) (Finite 1) (round64 (3 / 10)))
     (rembg_score binary64 (round64 (3 / 10)) (Finite 1) (Finite 1) (round64 (3 / 10))) =
     Finite (9007199254740991 / 9007199254740992)"
    unfolding u2net_score_binary64_sum_example rembg_score_binary64_sum_example
    using add64_sum_example by (simp add: binary64_def del: add64.simps)
  have one: "Finite (9007199254740991 / 9007199254740992) \<noteq> flit binary64 1"
    by (simp add: binary64_def round64_literals)
  from not_over_half decision sum one show ?thesis
    using foreground_binary64_example u2net_score_binary64_example
      rembg_score_binary64_example by blast
qed

text \<open>
  C10 (as amended). Whatever \<^verbatim>\<open>decide_best_method\<close> returns is the network output
  with \<^verbatim>\<open>"U-2-Net"\<close>, the output of rembg with \<^verbatim>\<open>"rembg"\<close> or the original with
  \<^verbatim>\<open>"Original"\<close>, so the label determines the image; and if the three images are
  pairwise different, the image determines the label as well.
\<close>

theorem decide_best_method_label:
  assumes "decide_best_method A E u2 rb orig path thr = Inr (img, label)"
  shows "((img, label) = (u2, ''U-2-Net'') \<or> (img, label) = (rb, ''rembg'') \<or>
          (img, label) = (orig, ''Original'')) \<and>
         (label = ''U-2-Net'' \<longrightarrow> img = u2) \<and>
         (label = ''rembg'' \<longrightarrow> img = rb) \<and>
         (label = ''Original'' \<longrightarrow> img = orig) \<and>
         (u2 \<noteq> rb \<and> u2 \<noteq> orig \<and> rb \<noteq> orig \<longrightarrow>
            (img = u2 \<longleftrightarrow> label = ''U-2-Net'') \<and>
            (img = rb \<longleftrightarrow> label = ''rembg'') \<and>
            (img = orig \<longleftrightarrow> label = ''Original''))"
proof -
  from decide_best_method_returns [OF assms] obtain s f e h g where
    "compare_images E u2 rb = Inr s" "foreground_pixel_analysis A u2 = Inr f"
    "edge_similarity E u2 rb = Inr e" "histogram_difference E u2 rb = Inr h"
    "needs_background_removal E path = Inr g"
    by blast
  from decide_best_method_eval [OF this] assms
  have "(img, label) = (u2, ''U-2-Net'') \<or> (img, label) = (rb, ''rembg'') \<or>
          (img, label) = (orig, ''Original'')"
    by (auto split: if_splits)
  then show ?thesis by auto
qed

theorem decide_best_method_label_witness:
  "example_sparse \<noteq> example_opaque \<and> example_sparse \<noteq> example_original \<and>
   example_opaque \<noteq> example_original \<and>
   decide_best_method exact (example_libs (1 / 4) (1 / 4) (1 / 4) [[1 / 2]])
     example_sparse example_opaque example_original ''in/a.JPG'' (2 / 10) =
   Inr (example_opaque, ''rembg'')"
proof -
  have r: "decide_best_method exact (example_libs (1 / 4) (1 / 4) (1 / 4) [[1 / 2]])
     example_sparse example_opaque example_original ''in/a.JPG'' (2 / 10) =
     Inr (example_opaque, ''rembg'')"
    by (simp add: decide_best_method_eval [where s = "1 / 4" and e = "1 / 4" and h = "1 / 4"
          and f = "1 / 10" and g = False]
        example_libs_scores foreground_examples needs_background_removal_example fless_exact
        u2net_score_exact rembg_score_exact)
  have d: "example_sparse \<noteq> example_opaque" "example_sparse \<noteq> example_original"
    "example_opaque \<noteq> example_original"
    by (simp_all add: example_sparse_def example_opaque_def example_original_def)
  from decide_best_method_label [OF r] d r show ?thesis by simp
qed

text \<open>
  Without the proviso the equivalences fail: when both candidates are the same image
  and the label is \<^verbatim>\<open>"U-2-Net"\<close>, the returned image is the output of rembg as well,
  but the label is not \<^verbatim>\<open>"rembg"\<close>.
\<close>

theorem decide_best_method_label_counterexample:
  "decide_best_method exact (example_libs 1 1 1 [[1 / 2]])
     example_opaque example_opaque example_original ''in/a.JPG'' (2 / 10) =
   Inr (example_opaque, ''U-2-Net'') \<and>
   \<not> (example_opaque = example_opaque \<longleftrightarrow> ''U-2-Net'' = ''rembg'')"
  by (simp add: decide_best_method_eval [where s = 1 and e = 1 and h = 1
        and f = 1 and g = False]
      example_libs_scores foreground_examples needs_background_removal_example fless_exact
      u2net_score_exact rembg_score_exact)

end
